theory Spec2Isabelle
  imports Main
begin

section \<open>Python values and the library operations the relay uses\<close>

text \<open>
  The relay of \<^verbatim>\<open>main.py\<close> exchanges JSON text with two websockets.  A message
  that \<^verbatim>\<open>json.loads\<close> accepts becomes a Python value built from dicts, lists,
  strings, integers, booleans and \<^verbatim>\<open>None\<close>; \<open>json\<close> is that value.  A dict is an
  association list (the first binding of a key is the dict's entry).  Strings are byte
  strings: \<^verbatim>\<open>lower\<close>, \<^verbatim>\<open>upper\<close>, \<^verbatim>\<open>strip\<close> and \<^verbatim>\<open>int\<close> are modelled on
  the ASCII range, so text whose letters, blanks or digits lie beyond ASCII, and JSON
  numbers with a fraction, are outside the model.  Python's \<^verbatim>\<open>None\<close> and JSON's \<^verbatim>\<open>null\<close> are the one
  value \<open>JNull\<close>, as they are after \<^verbatim>\<open>json.loads\<close>.
\<close>

datatype json =
    JNull
  | JBool bool
  | JInt int
  | JStr string
  | JArr "json list"
  | JObj "(string \<times> json) list"

text \<open>Every \<^verbatim>\<open>raise\<close> that can leave an expression of the relay is a value.\<close>

datatype py_error =
    JSONDecodeError
  | KeyError
  | TypeError
  | AttributeError
  | ValueError
  | Base64Error
  | ConnectionClosed
  | RuntimeError
  | StorageError
  | WebSocketDisconnect

text \<open>A text frame as it arrives, seen through \<^verbatim>\<open>json.loads\<close>.\<close>

datatype frame = NotJson | Json json

definition json_loads :: "frame \<Rightarrow> py_error + json" where
  "json_loads m = (case m of NotJson \<Rightarrow> Inl JSONDecodeError | Json v \<Rightarrow> Inr v)"

text \<open>Truth value of an object, as \<^verbatim>\<open>if x:\<close> tests it.\<close>

fun py_truthy :: "json \<Rightarrow> bool" where
  "py_truthy JNull = False"
| "py_truthy (JBool b) = b"
| "py_truthy (JInt n) = (n \<noteq> 0)"
| "py_truthy (JStr s) = (s \<noteq> [])"
| "py_truthy (JArr xs) = (xs \<noteq> [])"
| "py_truthy (JObj kv) = (kv \<noteq> [])"

text \<open>\<^verbatim>\<open>x[k]\<close> with a string key: only a dict accepts it.\<close>

fun py_getitem :: "json \<Rightarrow> string \<Rightarrow> py_error + json" where
  "py_getitem (JObj kv) k = (case map_of kv k of None \<Rightarrow> Inl KeyError | Some v \<Rightarrow> Inr v)"
| "py_getitem _ k = Inl TypeError"

text \<open>\<^verbatim>\<open>x.get(k, d)\<close>: a method of dicts only.\<close>

fun py_get :: "json \<Rightarrow> string \<Rightarrow> json \<Rightarrow> py_error + json" where
  "py_get (JObj kv) k d = Inr (case map_of kv k of None \<Rightarrow> d | Some v \<Rightarrow> v)"
| "py_get _ k d = Inl AttributeError"

text \<open>\<^verbatim>\<open>k in x\<close> for a dict \<open>x\<close>.\<close>

fun py_has_key :: "json \<Rightarrow> string \<Rightarrow> bool" where
  "py_has_key (JObj kv) k = (map_of kv k \<noteq> None)"
| "py_has_key _ k = False"

text \<open>The elements a \<^verbatim>\<open>for\<close> loop visits: a list's items, a string's characters,
  a dict's keys; anything else is not iterable.\<close>

fun py_iter :: "json \<Rightarrow> py_error + json list" where
  "py_iter (JArr xs) = Inr xs"
| "py_iter (JStr s) = Inr (map (\<lambda>c. JStr [c]) s)"
| "py_iter (JObj kv) = Inr (map (\<lambda>p. JStr (fst p)) kv)"
| "py_iter _ = Inl TypeError"

subsection \<open>Strings\<close>

definition is_space :: "char \<Rightarrow> bool" where
  "is_space c = (let n = (of_char c :: nat) in (9 \<le> n \<and> n \<le> 13) \<or> (28 \<le> n \<and> n \<le> 32))"

definition lower_char :: "char \<Rightarrow> char" where
  "lower_char c = (let n = (of_char c :: nat) in if 65 \<le> n \<and> n \<le> 90 then char_of (n + 32) else c)"

definition upper_char :: "char \<Rightarrow> char" where
  "upper_char c = (let n = (of_char c :: nat) in if 97 \<le> n \<and> n \<le> 122 then char_of (n - 32) else c)"

definition py_lower :: "string \<Rightarrow> string" where
  "py_lower s = map lower_char s"

definition py_upper :: "string \<Rightarrow> string" where
  "py_upper s = map upper_char s"

definition py_strip :: "string \<Rightarrow> string" where
  "py_strip s = rev (dropWhile is_space (rev (dropWhile is_space s)))"

text \<open>\<^verbatim>\<open>sub in s\<close> for strings.\<close>

fun py_in_str :: "string \<Rightarrow> string \<Rightarrow> bool" where
  "py_in_str sub [] = (sub = [])"
| "py_in_str sub (c # cs) = (take (length sub) (c # cs) = sub \<or> py_in_str sub cs)"

text \<open>\<^verbatim>\<open>sep.join(xs)\<close>.\<close>

fun py_join :: "string \<Rightarrow> string list \<Rightarrow> string" where
  "py_join sep [] = []"
| "py_join sep [x] = x"
| "py_join sep (x # y # ys) = x @ sep @ py_join sep (y # ys)"

subsection \<open>\<^verbatim>\<open>int(x)\<close>\<close>

definition is_digit :: "char \<Rightarrow> bool" where
  "is_digit c = (let n = (of_char c :: nat) in 48 \<le> n \<and> n \<le> 57)"

definition digit_val :: "char \<Rightarrow> nat" where
  "digit_val c = of_char c - 48"

text \<open>Decimal digits, where single underscores may stand between two digits.  The flag
  says that the previous character was a digit.\<close>

fun parse_digits :: "bool \<Rightarrow> nat \<Rightarrow> string \<Rightarrow> nat option" where
  "parse_digits d acc [] = (if d then Some acc else None)"
| "parse_digits d acc (c # cs) =
     (if is_digit c then parse_digits True (10 * acc + digit_val c) cs
      else if c = CHR ''_'' \<and> d then
        (case cs of [] \<Rightarrow> None
         | c' # _ \<Rightarrow> if is_digit c' then parse_digits False acc cs else None)
      else None)"

text \<open>Around the digits \<^verbatim>\<open>int\<close> skips blanks, tabs, line feeds, vertical tabs,
  form feeds and carriage returns, and no other character below 128.\<close>

definition is_c_space :: "char \<Rightarrow> bool" where
  "is_c_space c = (let n = (of_char c :: nat) in (9 \<le> n \<and> n \<le> 13) \<or> n = 32)"

definition parse_int :: "string \<Rightarrow> int option" where
  "parse_int s =
     (case rev (dropWhile is_c_space (rev (dropWhile is_c_space s))) of
        [] \<Rightarrow> None
      | c # cs \<Rightarrow>
          if c = CHR ''-'' then map_option (\<lambda>n. - int n) (parse_digits False 0 cs)
          else if c = CHR ''+'' then map_option int (parse_digits False 0 cs)
          else map_option int (parse_digits False 0 (c # cs)))"

fun py_int :: "json \<Rightarrow> py_error + int" where
  "py_int (JInt n) = Inr n"
| "py_int (JBool b) = Inr (if b then 1 else 0)"
| "py_int (JStr s) = (case parse_int s of None \<Rightarrow> Inl ValueError | Some n \<Rightarrow> Inr n)"
| "py_int _ = Inl TypeError"

section \<open>The relay session\<close>

text \<open>
  The variables that \<^verbatim>\<open>handle_media_stream\<close> shares between its two coroutines
  (lines 102 to 106), the process-wide \<^verbatim>\<open>transcript_log\<close>, the buffer local to
  \<^verbatim>\<open>send_to_twilio\<close>, whether each websocket is open, and whether each coroutine
  has finished.  \<^verbatim>\<open>stream_sid\<close> and \<^verbatim>\<open>last_assistant_item\<close> hold whatever JSON
  value the messages carried; \<open>JNull\<close> is Python's \<^verbatim>\<open>None\<close>.
\<close>

record relay =
  stream_sid :: json
  latest_media_timestamp :: int
  last_assistant_item :: json
  mark_queue :: "string list"
  response_start_timestamp_twilio :: "int option"
  transcript_log :: "string list"
  user_speech_buffer :: "string list"
  openai_open :: bool
  twilio_open :: bool
  receive_from_twilio_done :: bool
  send_to_twilio_done :: bool

definition initial :: relay where
  "initial = \<lparr> stream_sid = JNull, latest_media_timestamp = 0, last_assistant_item = JNull,
     mark_queue = [], response_start_timestamp_twilio = None, transcript_log = [],
     user_speech_buffer = [], openai_open = True, twilio_open = True,
     receive_from_twilio_done = False, send_to_twilio_done = False \<rparr>"

text \<open>
  What the relay reads from outside the program: the configured bucket name, whether
  the storage client works when it is called, the clock as \<^verbatim>\<open>%H:%M:%S\<close>, and the
  result of \<^verbatim>\<open>base64.b64encode(base64.b64decode(x)).decode('utf-8')\<close>.
\<close>

record env =
  GCS_BUCKET_NAME :: "string option"
  storage_ok :: bool
  utcnow :: string
  b64_recode :: "json \<Rightarrow> py_error + string"

text \<open>Everything the relay does to the outside, in the order it does it.\<close>

datatype effect =
    ToOpenAI json
  | ToTwilio json
  | TranscriptHandoff "string list"
  | GcsUpload string
  | CloseOpenAI
  | CloseTwilio
  | LogWarning py_error
  | LogError py_error

subsection \<open>Statements: state, effects, and a value or an exception\<close>

type_synonym 'a proc = "relay \<Rightarrow> relay \<times> effect list \<times> (py_error + 'a)"

definition ret :: "'a \<Rightarrow> 'a proc" where
  "ret x s = (s, [], Inr x)"

definition lift :: "py_error + 'a \<Rightarrow> 'a proc" where
  "lift r s = (s, [], r)"

definition gets :: "(relay \<Rightarrow> 'a) \<Rightarrow> 'a proc" where
  "gets f s = (s, [], Inr (f s))"

definition modify :: "(relay \<Rightarrow> relay) \<Rightarrow> unit proc" where
  "modify f s = (f s, [], Inr ())"

definition emit :: "effect \<Rightarrow> unit proc" where
  "emit e s = (s, [e], Inr ())"

text \<open>\<open>seq m f\<close> runs \<open>m\<close>, then \<open>f\<close> on its value; an exception of \<open>m\<close> skips \<open>f\<close>
  and keeps what \<open>m\<close> did before it was raised.\<close>

definition seq :: "'a proc \<Rightarrow> ('a \<Rightarrow> 'b proc) \<Rightarrow> 'b proc" where
  "seq m f s =
     (case m s of
        (s1, e1, Inl err) \<Rightarrow> (s1, e1, Inl err)
      | (s1, e1, Inr a) \<Rightarrow> (case f a s1 of (s2, e2, r) \<Rightarrow> (s2, e1 @ e2, r)))"

text \<open>\<^verbatim>\<open>try: m  except Exception as e: h(e)\<close>.\<close>

definition try_except :: "unit proc \<Rightarrow> (py_error \<Rightarrow> unit proc) \<Rightarrow> unit proc" where
  "try_except m h s =
     (case m s of
        (s1, e1, Inl err) \<Rightarrow> (case h err s1 of (s2, e2, r) \<Rightarrow> (s2, e1 @ e2, r))
      | (s1, e1, Inr a) \<Rightarrow> (s1, e1, Inr a))"

text \<open>How a loop body ends: the loop goes on, or the coroutine returns.\<close>

datatype flow = Next | Return

subsection \<open>The two links\<close>

text \<open>Sending on a websocket that is closed raises; closing the AI link is
  harmless when it is closed already.\<close>

definition openai_send :: "json \<Rightarrow> unit proc" where
  "openai_send j s = (if openai_open s then (s, [ToOpenAI j], Inr ()) else (s, [], Inl ConnectionClosed))"

definition openai_close :: "unit proc" where
  "openai_close s = (s\<lparr>openai_open := False\<rparr>, [CloseOpenAI], Inr ())"

definition twilio_send_json :: "json \<Rightarrow> unit proc" where
  "twilio_send_json j s = (if twilio_open s then (s, [ToTwilio j], Inr ()) else (s, [], Inl RuntimeError))"

definition twilio_close :: "unit proc" where
  "twilio_close s =
     (if twilio_open s then (s\<lparr>twilio_open := False\<rparr>, [CloseTwilio], Inr ())
      else (s, [], Inl RuntimeError))"

subsection \<open>Transcript\<close>

definition BYE_KEYWORDS :: "string list" where
  "BYE_KEYWORDS = [''bye'', ''goodbye'', ''see you'', ''talk to you later'', ''bye for now'', ''take care'']"

text \<open>\<^verbatim>\<open>timestamped_line(role, text)\<close>: \<^verbatim>\<open>upper\<close> and \<^verbatim>\<open>strip\<close> are methods
  of strings only.\<close>

definition timestamped_line :: "env \<Rightarrow> json \<Rightarrow> json \<Rightarrow> py_error + string" where
  "timestamped_line ev role txt =
     (case role of
        JStr r \<Rightarrow>
          (case txt of
             JStr t \<Rightarrow> Inr (''['' @ utcnow ev @ ''] '' @ py_upper r @ '': '' @ py_strip t)
           | _ \<Rightarrow> Inl AttributeError)
      | _ \<Rightarrow> Inl AttributeError)"

text \<open>\<^verbatim>\<open>any(bye in transcript_text.lower() for bye in BYE_KEYWORDS)\<close>.\<close>

definition says_goodbye :: "string \<Rightarrow> bool" where
  "says_goodbye t = list_ex (\<lambda>bye. py_in_str bye (py_lower t)) BYE_KEYWORDS"

text \<open>\<^verbatim>\<open>upload_transcript_to_gcs(text_lines)\<close>: the call is the handoff to the
  transcript sink; the upload itself happens when a bucket is configured and the
  transcript is not empty, and raises when the storage client fails.\<close>

definition upload_transcript_to_gcs :: "env \<Rightarrow> string list \<Rightarrow> unit proc" where
  "upload_transcript_to_gcs ev text_lines =
     seq (emit (TranscriptHandoff text_lines)) (\<lambda>_.
       if GCS_BUCKET_NAME ev = None \<or> GCS_BUCKET_NAME ev = Some [] then ret ()
       else if text_lines = [] then ret ()
       else if storage_ok ev then emit (GcsUpload (py_join [CHR 0x0A] text_lines))
       else lift (Inl StorageError))"

definition append_line :: "string \<Rightarrow> unit proc" where
  "append_line l = modify (\<lambda>s. s\<lparr>transcript_log := transcript_log s @ [l]\<rparr>)"

section \<open>Telephony to AI: \<^verbatim>\<open>receive_from_twilio\<close>\<close>

text \<open>One pass of the loop body (lines 112 to 129) on one text frame.\<close>

definition on_twilio_message :: "env \<Rightarrow> frame \<Rightarrow> flow proc" where
  "on_twilio_message ev message =
     seq (lift (json_loads message)) (\<lambda>data.
     seq (lift (py_getitem data ''event'')) (\<lambda>event.
     seq (gets openai_open) (\<lambda>ai_open.
       if event = JStr ''media'' \<and> ai_open then
         seq (lift (py_getitem data ''media'')) (\<lambda>media.
         seq (lift (py_getitem media ''timestamp'')) (\<lambda>ts.
         seq (lift (py_int ts)) (\<lambda>t.
         seq (modify (\<lambda>s. s\<lparr>latest_media_timestamp := t\<rparr>)) (\<lambda>_.
         seq (lift (py_getitem media ''payload'')) (\<lambda>payload.
         seq (openai_send (JObj [(''type'', JStr ''input_audio_buffer.append''),
                                 (''audio'', payload)])) (\<lambda>_.
         ret Next))))))
       else if event = JStr ''start'' then
         seq (lift (py_getitem data ''start'')) (\<lambda>start.
         seq (lift (py_getitem start ''streamSid'')) (\<lambda>sid.
         seq (modify (\<lambda>s. s\<lparr>stream_sid := sid\<rparr>)) (\<lambda>_.
         ret Next)))
       else if event = JStr ''mark'' then
         seq (modify (\<lambda>s. if mark_queue s \<noteq> [] then s\<lparr>mark_queue := tl (mark_queue s)\<rparr> else s)) (\<lambda>_.
         ret Next)
       else if event = JStr ''stop'' then
         seq (gets transcript_log) (\<lambda>lines.
         seq (upload_transcript_to_gcs ev lines) (\<lambda>_.
         seq (gets openai_open) (\<lambda>still_open.
         seq (if still_open then openai_close else ret ()) (\<lambda>_.
         ret Return))))
       else ret Next)))"

text \<open>What the telephony link delivers to \<^verbatim>\<open>async for message in
  websocket.iter_text()\<close>: a text frame, or the disconnect of the transport.  On a
  disconnect \<^verbatim>\<open>iter_text\<close> ends the iteration without raising, so the loop is
  left as by its normal end and no handler runs.\<close>

datatype tw_input = TwFrame frame | TwDisconnect

text \<open>The two handlers around the loop (lines 130 to 134), for what the body
  raises.\<close>

definition receive_from_twilio_except :: "py_error \<Rightarrow> unit proc" where
  "receive_from_twilio_except err =
     (if err = WebSocketDisconnect then
        seq (gets openai_open) (\<lambda>ai_open. if ai_open then openai_close else ret ())
      else emit (LogError err))"

text \<open>One turn of the coroutine: the next input, the body, and the exit of the
  loop by the end of the iteration, by \<^verbatim>\<open>return\<close> or through a handler.\<close>

definition receive_from_twilio_step :: "env \<Rightarrow> tw_input \<Rightarrow> relay \<Rightarrow> relay \<times> effect list" where
  "receive_from_twilio_step ev inp s =
     (case inp of
        TwDisconnect \<Rightarrow> (s\<lparr>twilio_open := False, receive_from_twilio_done := True\<rparr>, [])
      | TwFrame message \<Rightarrow>
          (case on_twilio_message ev message s of
             (s1, e1, Inr Next) \<Rightarrow> (s1, e1)
           | (s1, e1, Inr Return) \<Rightarrow> (s1\<lparr>receive_from_twilio_done := True\<rparr>, e1)
           | (s1, e1, Inl err) \<Rightarrow>
               (case receive_from_twilio_except err s1 of
                  (s2, e2, _) \<Rightarrow> (s2\<lparr>receive_from_twilio_done := True\<rparr>, e1 @ e2))))"

section \<open>AI to telephony: \<^verbatim>\<open>send_to_twilio\<close>\<close>

text \<open>\<^verbatim>\<open>send_mark(connection, stream_sid)\<close> (lines 231 to 238); the stream id is
  the argument of the call.\<close>

definition send_mark :: "json \<Rightarrow> unit proc" where
  "send_mark sid =
     (if py_truthy sid then
        seq (twilio_send_json (JObj [(''event'', JStr ''mark''), (''streamSid'', sid),
                                     (''mark'', JObj [(''name'', JStr ''responsePart'')])])) (\<lambda>_.
        modify (\<lambda>s. s\<lparr>mark_queue := mark_queue s @ [''responsePart'']\<rparr>))
      else ret ())"

text \<open>\<^verbatim>\<open>handle_speech_started_event()\<close> (lines 215 to 229).\<close>

definition handle_speech_started_event :: "unit proc" where
  "handle_speech_started_event s =
     (case response_start_timestamp_twilio s of
        None \<Rightarrow> ret () s
      | Some started \<Rightarrow>
          if mark_queue s = [] then ret () s
          else
            (let elapsed_time = latest_media_timestamp s - started in
             seq (gets last_assistant_item) (\<lambda>item.
             seq (if py_truthy item then
                    openai_send (JObj [(''type'', JStr ''conversation.item.truncate''),
                                       (''item_id'', item),
                                       (''content_index'', JInt 0),
                                       (''audio_end_ms'', JInt elapsed_time)])
                  else ret ()) (\<lambda>_.
             seq (gets stream_sid) (\<lambda>sid.
             seq (twilio_send_json (JObj [(''event'', JStr ''clear''), (''streamSid'', sid)])) (\<lambda>_.
             modify (\<lambda>s'. s'\<lparr>mark_queue := [], last_assistant_item := JNull,
                               response_start_timestamp_twilio := None\<rparr>))))) s))"

text \<open>The \<^verbatim>\<open>response.audio.delta\<close> branch (lines 146 to 161).\<close>

definition audio_delta :: "env \<Rightarrow> json \<Rightarrow> unit proc" where
  "audio_delta ev response =
     seq (try_except
            (seq (lift (py_getitem response ''delta'')) (\<lambda>delta.
             seq (lift (b64_recode ev delta)) (\<lambda>audio_payload.
             seq (gets stream_sid) (\<lambda>sid.
             twilio_send_json (JObj [(''event'', JStr ''media''), (''streamSid'', sid),
                                     (''media'', JObj [(''payload'', JStr audio_payload)])])))))
            (\<lambda>e. emit (LogWarning e))) (\<lambda>_.
     seq (modify (\<lambda>s. if response_start_timestamp_twilio s = None
                       then s\<lparr>response_start_timestamp_twilio := Some (latest_media_timestamp s)\<rparr>
                       else s)) (\<lambda>_.
     seq (lift (py_get response ''item_id'' JNull)) (\<lambda>item_id.
     seq (if py_truthy item_id then modify (\<lambda>s. s\<lparr>last_assistant_item := item_id\<rparr>) else ret ()) (\<lambda>_.
     seq (gets stream_sid) (\<lambda>sid.
     send_mark sid)))))"

text \<open>The goodbye sequence (lines 174 to 187): farewell, stop, transcript, both links,
  \<^verbatim>\<open>return\<close>; no statement of it stands in a \<^verbatim>\<open>try\<close> of its own.\<close>

definition goodbye_hangup :: "env \<Rightarrow> flow proc" where
  "goodbye_hangup ev =
     seq (gets stream_sid) (\<lambda>sid.
     seq (twilio_send_json (JObj [(''event'', JStr ''media''), (''streamSid'', sid),
            (''media'', JObj [(''payload'', JStr ''Goodbye, call me back if you need help.'')])])) (\<lambda>_.
     seq (gets stream_sid) (\<lambda>sid'.
     seq (twilio_send_json (JObj [(''event'', JStr ''stop''), (''streamSid'', sid')])) (\<lambda>_.
     seq (gets transcript_log) (\<lambda>lines.
     seq (upload_transcript_to_gcs ev lines) (\<lambda>_.
     seq openai_close (\<lambda>_.
     seq twilio_close (\<lambda>_.
     ret Return))))))))"

text \<open>The body of the inner loop over an item's content (lines 168 to 187).\<close>

definition content_piece_step :: "env \<Rightarrow> json \<Rightarrow> json \<Rightarrow> flow proc" where
  "content_piece_step ev role content_piece =
     seq (lift (py_get content_piece ''type'' JNull)) (\<lambda>ty.
     seq (lift (py_get content_piece ''transcript'' JNull)) (\<lambda>transcript_text.
       if ty = JStr ''audio'' \<and> py_truthy transcript_text then
         seq (lift (timestamped_line ev role transcript_text)) (\<lambda>line.
         seq (append_line line) (\<lambda>_.
           case transcript_text of
             JStr t \<Rightarrow> if says_goodbye t then goodbye_hangup ev else ret Next
           | _ \<Rightarrow> lift (Inl AttributeError)))
       else ret Next))"

fun content_loop :: "env \<Rightarrow> json \<Rightarrow> json list \<Rightarrow> flow proc" where
  "content_loop ev role [] = ret Next"
| "content_loop ev role (content_piece # rest) =
     seq (content_piece_step ev role content_piece) (\<lambda>fl.
       case fl of Return \<Rightarrow> ret Return | Next \<Rightarrow> content_loop ev role rest)"

text \<open>The body of the loop over the output items (lines 166 and 167).\<close>

definition item_step :: "env \<Rightarrow> json \<Rightarrow> flow proc" where
  "item_step ev item =
     seq (lift (py_get item ''role'' (JStr ''assistant''))) (\<lambda>role.
     seq (lift (py_get item ''content'' (JArr []))) (\<lambda>content.
     seq (lift (py_iter content)) (\<lambda>pieces.
     content_loop ev role pieces)))"

fun item_loop :: "env \<Rightarrow> json list \<Rightarrow> flow proc" where
  "item_loop ev [] = ret Next"
| "item_loop ev (item # rest) =
     seq (item_step ev item) (\<lambda>fl.
       case fl of Return \<Rightarrow> ret Return | Next \<Rightarrow> item_loop ev rest)"

text \<open>The \<^verbatim>\<open>response.done\<close> branch (lines 163 to 192).\<close>

definition response_done :: "env \<Rightarrow> json \<Rightarrow> flow proc" where
  "response_done ev response =
     seq (lift (py_get response ''response'' (JObj []))) (\<lambda>r.
     seq (lift (py_get r ''output'' (JArr []))) (\<lambda>outputs.
     seq (lift (py_iter outputs)) (\<lambda>items.
     seq (item_loop ev items) (\<lambda>fl.
       case fl of
         Return \<Rightarrow> ret Return
       | Next \<Rightarrow>
           seq (lift (py_get response ''input'' (JObj []))) (\<lambda>user_input.
           seq (lift (py_get user_input ''transcript'' JNull)) (\<lambda>said.
             if py_truthy said then
               seq (lift (timestamped_line ev (JStr ''user'') said)) (\<lambda>line.
               seq (append_line line) (\<lambda>_. ret Next))
             else ret Next))))))"

text \<open>The branches that collect the caller's words (lines 194 to 207).\<close>

definition input_audio_text :: "json \<Rightarrow> unit proc" where
  "input_audio_text response =
     seq (lift (py_get response ''text'' JNull)) (\<lambda>user_text.
       if py_truthy user_text then
         (case user_text of
            JStr t \<Rightarrow> modify (\<lambda>s. s\<lparr>user_speech_buffer := user_speech_buffer s @ [py_strip t]\<rparr>)
          | _ \<Rightarrow> lift (Inl AttributeError))
       else ret ())"

definition speech_stopped :: "env \<Rightarrow> unit proc" where
  "speech_stopped ev =
     seq (gets user_speech_buffer) (\<lambda>buf.
       if buf \<noteq> [] then
         seq (lift (timestamped_line ev (JStr ''user'') (JStr (py_join '' '' buf)))) (\<lambda>line.
         seq (append_line line) (\<lambda>_.
         modify (\<lambda>s. s\<lparr>user_speech_buffer := []\<rparr>)))
       else ret ())"

definition committed :: "env \<Rightarrow> unit proc" where
  "committed ev =
     seq (lift (timestamped_line ev (JStr ''user'') (JStr ''[Speech committed]''))) (\<lambda>line.
     append_line line)"

text \<open>One pass of the loop body (lines 141 to 211) on one text frame.  The test of
  line 143 only prints, but \<^verbatim>\<open>response['type']\<close> raises where the key is
  missing or \<^verbatim>\<open>response\<close> is no dict.\<close>

definition on_openai_message :: "env \<Rightarrow> frame \<Rightarrow> flow proc" where
  "on_openai_message ev openai_message =
     seq (lift (json_loads openai_message)) (\<lambda>response.
     seq (lift (py_getitem response ''type'')) (\<lambda>ty.
     seq (if ty = JStr ''response.audio.delta'' \<and> py_has_key response ''delta''
          then audio_delta ev response else ret ()) (\<lambda>_.
     seq (if ty = JStr ''response.done'' then response_done ev response else ret Next) (\<lambda>fl.
       case fl of
         Return \<Rightarrow> ret Return
       | Next \<Rightarrow>
           seq (if ty = JStr ''input.audio.text'' then input_audio_text response else ret ()) (\<lambda>_.
           seq (if ty = JStr ''input_audio_buffer.speech_stopped'' then speech_stopped ev else ret ()) (\<lambda>_.
           seq (if ty = JStr ''input_audio_buffer.committed'' then committed ev else ret ()) (\<lambda>_.
           seq (if ty = JStr ''input_audio_buffer.speech_started'' then
                  seq (gets last_assistant_item) (\<lambda>item.
                    if py_truthy item then handle_speech_started_event else ret ())
                else ret ()) (\<lambda>_.
           ret Next))))))))"

text \<open>What the AI link delivers to \<^verbatim>\<open>async for openai_message in openai_ws\<close>: a
  text frame, the end of the iteration when the connection was closed properly, or
  the exception of a connection that broke.\<close>

datatype ai_input = AiFrame frame | AiClosedOK | AiClosedError

text \<open>One turn of the coroutine; its only handler is the one around the loop
  (lines 212 and 213), which logs and ends the coroutine.\<close>

definition send_to_twilio_step :: "env \<Rightarrow> ai_input \<Rightarrow> relay \<Rightarrow> relay \<times> effect list" where
  "send_to_twilio_step ev inp s =
     (case inp of
        AiClosedOK \<Rightarrow> (s\<lparr>openai_open := False, send_to_twilio_done := True\<rparr>, [])
      | AiClosedError \<Rightarrow>
          (s\<lparr>openai_open := False, send_to_twilio_done := True\<rparr>, [LogError ConnectionClosed])
      | AiFrame openai_message \<Rightarrow>
          (case on_openai_message ev openai_message s of
             (s1, e1, Inr Next) \<Rightarrow> (s1, e1)
           | (s1, e1, Inr Return) \<Rightarrow> (s1\<lparr>send_to_twilio_done := True\<rparr>, e1)
           | (s1, e1, Inl err) \<Rightarrow> (s1\<lparr>send_to_twilio_done := True\<rparr>, e1 @ [LogError err])))"

section \<open>The call: both coroutines under \<^verbatim>\<open>asyncio.gather\<close>\<close>

text \<open>
  The two coroutines run on one event loop.  The model takes the inputs of both links
  in the order in which the coroutines take them up, and runs the body for one input
  to its end before the next input is taken; an input for a coroutine that has
  finished is not read.  Any sequence of inputs is admitted: what the peers may send,
  and when, is not restricted.  The call starts after
  \<^verbatim>\<open>send_session_update\<close> has sent the session configuration and the opening
  turn (lines 100 and 242 to 267), which read and write none of the shared variables.
\<close>

datatype event = FromTwilio tw_input | FromOpenAI ai_input

definition relay_step :: "env \<Rightarrow> event \<Rightarrow> relay \<Rightarrow> relay \<times> effect list" where
  "relay_step ev e s =
     (case e of
        FromTwilio inp \<Rightarrow>
          if receive_from_twilio_done s then (s, []) else receive_from_twilio_step ev inp s
      | FromOpenAI inp \<Rightarrow>
          if send_to_twilio_done s then (s, []) else send_to_twilio_step ev inp s)"

fun run :: "env \<Rightarrow> event list \<Rightarrow> relay \<Rightarrow> relay \<times> effect list" where
  "run ev [] s = (s, [])"
| "run ev (e # es) s =
     (case relay_step ev e s of
        (s1, e1) \<Rightarrow> (case run ev es s1 of (s2, e2) \<Rightarrow> (s2, e1 @ e2)))"

subsection \<open>Reading the effects\<close>

fun is_handoff :: "effect \<Rightarrow> bool" where
  "is_handoff (TranscriptHandoff _) = True"
| "is_handoff _ = False"

definition handoffs :: "effect list \<Rightarrow> nat" where
  "handoffs es = length (filter is_handoff es)"

subsection \<open>The messages of the two protocols\<close>

definition twilio_start :: "json \<Rightarrow> frame" where
  "twilio_start sid = Json (JObj [(''event'', JStr ''start''), (''start'', JObj [(''streamSid'', sid)])])"

definition twilio_media :: "json \<Rightarrow> json \<Rightarrow> frame" where
  "twilio_media ts payload =
     Json (JObj [(''event'', JStr ''media''), (''media'', JObj [(''timestamp'', ts), (''payload'', payload)])])"

definition twilio_stop :: frame where
  "twilio_stop = Json (JObj [(''event'', JStr ''stop'')])"

definition ai_audio_delta :: "json \<Rightarrow> json \<Rightarrow> frame" where
  "ai_audio_delta item_id delta =
     Json (JObj [(''type'', JStr ''response.audio.delta''), (''item_id'', item_id), (''delta'', delta)])"

definition ai_speech_started :: frame where
  "ai_speech_started = Json (JObj [(''type'', JStr ''input_audio_buffer.speech_started'')])"

text \<open>An environment for the worked examples: a bucket is configured and the storage
  client works, the clock reads noon, and the two payloads of the examples are their
  own re-encoding (\<^verbatim>\<open>AAAA\<close> is three zero bytes, \<^verbatim>\<open>AQID\<close> the bytes 1, 2, 3).\<close>

definition example_env :: env where
  "example_env = \<lparr> GCS_BUCKET_NAME = Some ''calls'', storage_ok = True, utcnow = ''12:00:00'',
     b64_recode = (\<lambda>x. if x = JStr ''AAAA'' then Inr ''AAAA''
                        else if x = JStr ''AQID'' then Inr ''AQID''
                        else Inl Base64Error) \<rparr>"

text \<open>The state of the call when the caller has heard 800 ms of the answer \<^verbatim>\<open>r1\<close>:
  the stream is \<^verbatim>\<open>CA123\<close>, one mark is outstanding.\<close>

definition speaking :: relay where
  "speaking = initial\<lparr> stream_sid := JStr ''CA123'', latest_media_timestamp := 800,
     last_assistant_item := JStr ''r1'', mark_queue := [''responsePart''],
     response_start_timestamp_twilio := Some 0 \<rparr>"

text \<open>A completed response of three items; the second piece of the second item says
  goodbye, and more pieces, one more item and the caller's inferred words follow it.\<close>

definition audio_piece :: "string \<Rightarrow> json" where
  "audio_piece t = JObj [(''type'', JStr ''audio''), (''transcript'', JStr t)]"

definition assistant_item :: "json list \<Rightarrow> json" where
  "assistant_item pieces = JObj [(''role'', JStr ''assistant''), (''content'', JArr pieces)]"

definition farewell_response :: json where
  "farewell_response =
     JObj [(''type'', JStr ''response.done''),
           (''response'', JObj [(''output'', JArr
              [assistant_item [audio_piece ''Sure.''],
               assistant_item [JObj [(''type'', JStr ''text''), (''text'', JStr ''ok'')],
                               audio_piece ''Goodbye, take care.'',
                               audio_piece ''One more thing.''],
               assistant_item [audio_piece ''Hello again.'']])]),
           (''input'', JObj [(''transcript'', JStr ''thanks'')])]"

text \<open>A completed response of one item with one piece.\<close>

definition one_piece_response :: "json \<Rightarrow> json \<Rightarrow> json" where
  "one_piece_response role piece =
     JObj [(''type'', JStr ''response.done''),
           (''response'', JObj [(''output'', JArr
              [JObj [(''role'', role), (''content'', JArr [piece])]])])]"

section \<open>Vocabulary of the properties\<close>

subsection \<open>The messages the relay sends\<close>

definition media_event :: "json \<Rightarrow> string \<Rightarrow> json" where
  "media_event sid payload =
     JObj [(''event'', JStr ''media''), (''streamSid'', sid), (''media'', JObj [(''payload'', JStr payload)])]"

definition mark_event :: "json \<Rightarrow> json" where
  "mark_event sid =
     JObj [(''event'', JStr ''mark''), (''streamSid'', sid), (''mark'', JObj [(''name'', JStr ''responsePart'')])]"

definition clear_event :: "json \<Rightarrow> json" where
  "clear_event sid = JObj [(''event'', JStr ''clear''), (''streamSid'', sid)]"

definition stop_event :: "json \<Rightarrow> json" where
  "stop_event sid = JObj [(''event'', JStr ''stop''), (''streamSid'', sid)]"

definition farewell_event :: "json \<Rightarrow> json" where
  "farewell_event sid = media_event sid ''Goodbye, call me back if you need help.''"

definition truncate_command :: "json \<Rightarrow> int \<Rightarrow> json" where
  "truncate_command item elapsed_time =
     JObj [(''type'', JStr ''conversation.item.truncate''), (''item_id'', item),
           (''content_index'', JInt 0), (''audio_end_ms'', JInt elapsed_time)]"

text \<open>What \<^verbatim>\<open>upload_transcript_to_gcs\<close> writes when it does not raise, and when it
  raises.\<close>

definition gcs_upload_of :: "env \<Rightarrow> string list \<Rightarrow> effect list" where
  "gcs_upload_of ev text_lines =
     (if GCS_BUCKET_NAME ev = None \<or> GCS_BUCKET_NAME ev = Some [] \<or> text_lines = [] then []
      else [GcsUpload (py_join [CHR 0x0A] text_lines)])"

definition upload_raises :: "env \<Rightarrow> string list \<Rightarrow> bool" where
  "upload_raises ev text_lines =
     (GCS_BUCKET_NAME ev \<noteq> None \<and> GCS_BUCKET_NAME ev \<noteq> Some [] \<and> text_lines \<noteq> [] \<and> \<not> storage_ok ev)"

subsection \<open>Frames\<close>

text \<open>\<open>only_log s s'\<close>: \<open>s'\<close> is \<open>s\<close> with lines appended to the transcript.\<close>

definition only_log :: "relay \<Rightarrow> relay \<Rightarrow> bool" where
  "only_log s s' = (\<exists>ls. s' = s\<lparr>transcript_log := transcript_log s @ ls\<rparr>)"

text \<open>\<open>unchanged s s'\<close>: the five variables of lines 102 to 106 are the same in both.\<close>

definition unchanged :: "relay \<Rightarrow> relay \<Rightarrow> bool" where
  "unchanged s s' =
     (stream_sid s' = stream_sid s \<and> mark_queue s' = mark_queue s
      \<and> last_assistant_item s' = last_assistant_item s
      \<and> response_start_timestamp_twilio s' = response_start_timestamp_twilio s
      \<and> latest_media_timestamp s' = latest_media_timestamp s)"

definition keeps :: "'a proc \<Rightarrow> bool" where
  "keeps m = (\<forall>s. unchanged s (fst (m s)))"

definition preserves :: "(relay \<Rightarrow> bool) \<Rightarrow> 'a proc \<Rightarrow> bool" where
  "preserves I m = (\<forall>s. I s \<longrightarrow> I (fst (m s)))"

definition frame_stable :: "(relay \<Rightarrow> bool) \<Rightarrow> bool" where
  "frame_stable I = (\<forall>s s'. unchanged s s' \<longrightarrow> I s \<longrightarrow> I s')"

subsection \<open>Invariants of the call\<close>

definition in_flight_has_start :: "relay \<Rightarrow> bool" where
  "in_flight_has_start s =
     (last_assistant_item s \<noteq> JNull \<longrightarrow> response_start_timestamp_twilio s \<noteq> None)"

definition queued_marks_have_stream :: "relay \<Rightarrow> bool" where
  "queued_marks_have_stream s = (mark_queue s \<noteq> [] \<longrightarrow> py_truthy (stream_sid s))"

text \<open>An input satisfies \<open>start_carries_stream\<close> unless it is a telephony
  \<^verbatim>\<open>start\<close> event whose \<^verbatim>\<open>streamSid\<close> is \<^verbatim>\<open>null\<close>, empty or otherwise false.\<close>

definition start_carries_stream :: "event \<Rightarrow> bool" where
  "start_carries_stream e =
     (case e of
        FromTwilio (TwFrame (Json data)) \<Rightarrow>
          (if py_getitem data ''event'' = Inr (JStr ''start'') then
             (case py_getitem data ''start'' of
                Inl _ \<Rightarrow> True
              | Inr start \<Rightarrow>
                  (case py_getitem start ''streamSid'' of
                     Inl _ \<Rightarrow> True
                   | Inr sid \<Rightarrow> py_truthy sid))
           else True)
      | _ \<Rightarrow> True)"

text \<open>\<open>cut_off s\<close>: the telephony link is gone and \<^verbatim>\<open>receive_from_twilio\<close> has ended.
  A statement is \<open>mute\<close> when, run in such a state, it stays in one and hands no
  transcript off.\<close>

definition cut_off :: "relay \<Rightarrow> bool" where
  "cut_off s = (\<not> twilio_open s \<and> receive_from_twilio_done s)"

definition mute :: "'a proc \<Rightarrow> bool" where
  "mute m = (\<forall>s. cut_off s \<longrightarrow> cut_off (fst (m s)) \<and> handoffs (fst (snd (m s))) = 0)"

section \<open>Properties\<close>

lemmas proc_defs = ret_def lift_def gets_def modify_def emit_def seq_def try_except_def
  openai_send_def openai_close_def twilio_send_json_def twilio_close_def

lemma speaking_reached:
  "fst (run example_env
     [FromTwilio (TwFrame (twilio_start (JStr ''CA123''))),
      FromTwilio (TwFrame (twilio_media (JStr ''0'') (JStr ''AAAA''))),
      FromOpenAI (AiFrame (ai_audio_delta (JStr ''r1'') (JStr ''AQID''))),
      FromTwilio (TwFrame (twilio_media (JStr ''800'') (JStr ''AAAA'')))] initial) = speaking"
  by code_simp

subsection \<open>Sequencing\<close>

lemma seq_lift_Inr: "seq (lift (Inr x)) f s = f x s"
  by (cases "f x s") (simp add: seq_def lift_def)

lemma seq_ret: "seq (ret x) f s = f x s"
  by (cases "f x s") (simp add: seq_def ret_def)

lemma seq_Next:
  assumes "seq m f s = (s', es, Inr v)"
  obtains s1 e1 a e2 where "m s = (s1, e1, Inr a)" and "f a s1 = (s', e2, Inr v)" and "es = e1 @ e2"
  using assms by (auto simp: seq_def split: prod.splits sum.splits)

text \<open>A statement that never yields \<open>Next\<close> ends the loop it stands in.\<close>

lemma seq_leaves_loop:
  assumes "snd (snd (m s)) \<noteq> Inr Next"
  shows "seq m (\<lambda>fl. case fl of Return \<Rightarrow> ret Return | Next \<Rightarrow> k) s = m s"
proof (cases "m s")
  case (fields s1 e1 r)
  show ?thesis
  proof (cases r)
    case (Inl err)
    with fields show ?thesis by (simp add: seq_def)
  next
    case (Inr fl)
    with assms fields have "fl = Return" by (cases fl) simp_all
    with fields Inr show ?thesis by (simp add: seq_def ret_def)
  qed
qed

lemma run_Cons_fst: "fst (run ev (e # es) s) = fst (run ev es (fst (relay_step ev e s)))"
  by (simp split: prod.splits)

lemma run_after_receive_from_twilio_done:
  "receive_from_twilio_done s \<Longrightarrow> run ev (map FromTwilio later) s = (s, [])"
  by (induction later) (simp_all add: relay_step_def)

lemma run_after_send_to_twilio_done:
  "send_to_twilio_done s \<Longrightarrow> run ev (map FromOpenAI later) s = (s, [])"
  by (induction later) (simp_all add: relay_step_def)

lemma py_getitem_error: "py_getitem d k = Inl err \<Longrightarrow> err = KeyError \<or> err = TypeError"
  by (cases d) (auto split: option.splits)

subsection \<open>The goodbye sequence inside the loops\<close>

lemma only_log_refl: "only_log s s"
  by (simp add: only_log_def exI [of _ "[]"])

lemma only_log_trans: "only_log s s1 \<Longrightarrow> only_log s1 s2 \<Longrightarrow> only_log s s2"
  by (auto simp: only_log_def)

lemma only_log_append: "only_log s (s\<lparr>transcript_log := transcript_log s @ [l]\<rparr>)"
  by (auto simp: only_log_def)

lemma goodbye_hangup_not_next: "snd (snd (goodbye_hangup ev s)) \<noteq> Inr Next"
  by (simp add: goodbye_hangup_def upload_transcript_to_gcs_def proc_defs)

lemma content_piece_step_quiet:
  assumes "content_piece_step ev role cp s = (s', es, Inr Next)"
  shows "es = [] \<and> only_log s s'"
proof -
  have g: "goodbye_hangup ev x \<noteq> (s', es', Inr Next)" for x es'
    using goodbye_hangup_not_next [of ev x] by auto
  show ?thesis
    using assms
    apply (simp add: content_piece_step_def)
    apply (auto simp: seq_def lift_def ret_def append_line_def modify_def g only_log_refl only_log_append
        split: sum.splits if_splits json.splits prod.splits)
    done
qed

lemma content_loop_quiet:
  "content_loop ev role cps s = (s', es, Inr Next) \<Longrightarrow> es = [] \<and> only_log s s'"
proof (induction cps arbitrary: s es)
  case Nil
  then show ?case by (simp add: ret_def only_log_refl)
next
  case (Cons cp cps)
  from Cons.prems obtain s1 e1 fl e2 where
    a: "content_piece_step ev role cp s = (s1, e1, Inr fl)" and
    b: "(case fl of Return \<Rightarrow> ret Return | Next \<Rightarrow> content_loop ev role cps) s1 = (s', e2, Inr Next)" and
    c: "es = e1 @ e2"
    by (auto elim: seq_Next)
  from b have fl: "fl = Next" by (cases fl) (simp_all add: ret_def)
  with b have b': "content_loop ev role cps s1 = (s', e2, Inr Next)" by simp
  from content_piece_step_quiet a fl have "e1 = [] \<and> only_log s s1" by blast
  moreover from Cons.IH [OF b'] have "e2 = [] \<and> only_log s1 s'" .
  ultimately show ?case using c by (auto intro: only_log_trans)
qed

lemma item_step_quiet:
  "item_step ev item s = (s', es, Inr Next) \<Longrightarrow> es = [] \<and> only_log s s'"
  by (auto simp: item_step_def seq_def lift_def split: sum.splits prod.splits dest: content_loop_quiet)

lemma item_loop_quiet:
  "item_loop ev items s = (s', es, Inr Next) \<Longrightarrow> es = [] \<and> only_log s s'"
proof (induction items arbitrary: s es)
  case Nil
  then show ?case by (simp add: ret_def only_log_refl)
next
  case (Cons item items)
  from Cons.prems obtain s1 e1 fl e2 where
    a: "item_step ev item s = (s1, e1, Inr fl)" and
    b: "(case fl of Return \<Rightarrow> ret Return | Next \<Rightarrow> item_loop ev items) s1 = (s', e2, Inr Next)" and
    c: "es = e1 @ e2"
    by (auto elim: seq_Next)
  from b have fl: "fl = Next" by (cases fl) (simp_all add: ret_def)
  with b have b': "item_loop ev items s1 = (s', e2, Inr Next)" by simp
  from item_step_quiet a fl have "e1 = [] \<and> only_log s s1" by blast
  moreover from Cons.IH [OF b'] have "e2 = [] \<and> only_log s1 s'" .
  ultimately show ?case using c by (auto intro: only_log_trans)
qed

lemma content_loop_append:
  "content_loop ev role xs s = (s1, [], Inr Next) \<Longrightarrow>
   content_loop ev role (xs @ ys) s = content_loop ev role ys s1"
proof (induction xs arbitrary: s)
  case Nil
  then show ?case by (simp add: ret_def)
next
  case (Cons x xs)
  from Cons.prems obtain s' e1 fl e2 where
    a: "content_piece_step ev role x s = (s', e1, Inr fl)" and
    b: "(case fl of Return \<Rightarrow> ret Return | Next \<Rightarrow> content_loop ev role xs) s' = (s1, e2, Inr Next)" and
    c: "[] = e1 @ e2"
    by (auto elim: seq_Next)
  from b have fl: "fl = Next" by (cases fl) (simp_all add: ret_def)
  from c have e: "e1 = []" "e2 = []" by simp_all
  from b fl e have "content_loop ev role xs s' = (s1, [], Inr Next)" by simp
  from Cons.IH [OF this] a fl e show ?case
    by (cases "content_loop ev role ys s1") (simp add: seq_def)
qed

lemma item_loop_append:
  "item_loop ev xs s = (s1, [], Inr Next) \<Longrightarrow>
   item_loop ev (xs @ ys) s = item_loop ev ys s1"
proof (induction xs arbitrary: s)
  case Nil
  then show ?case by (simp add: ret_def)
next
  case (Cons x xs)
  from Cons.prems obtain s' e1 fl e2 where
    a: "item_step ev x s = (s', e1, Inr fl)" and
    b: "(case fl of Return \<Rightarrow> ret Return | Next \<Rightarrow> item_loop ev xs) s' = (s1, e2, Inr Next)" and
    c: "[] = e1 @ e2"
    by (auto elim: seq_Next)
  from b have fl: "fl = Next" by (cases fl) (simp_all add: ret_def)
  from c have e: "e1 = []" "e2 = []" by simp_all
  from b fl e have "item_loop ev xs s' = (s1, [], Inr Next)" by simp
  from Cons.IH [OF this] a fl e show ?case
    by (cases "item_loop ev ys s1") (simp add: seq_def)
qed

lemma says_goodbye_nonempty: "says_goodbye t \<Longrightarrow> t \<noteq> []"
  by (auto simp: says_goodbye_def BYE_KEYWORDS_def py_lower_def)

lemma goodbye_piece:
  assumes "py_get piece ''type'' JNull = Inr (JStr ''audio'')"
    and "py_get piece ''transcript'' JNull = Inr (JStr t)"
    and "says_goodbye t"
    and "timestamped_line ev role (JStr t) = Inr line"
  shows "content_piece_step ev role piece s =
           goodbye_hangup ev (s\<lparr>transcript_log := transcript_log s @ [line]\<rparr>)"
  using assms says_goodbye_nonempty [OF assms(3)]
  by (cases "goodbye_hangup ev (s\<lparr>transcript_log := transcript_log s @ [line]\<rparr>)")
     (simp add: content_piece_step_def seq_def lift_def append_line_def modify_def)

lemma goodbye_reached:
  assumes ty: "py_getitem response ''type'' = Inr (JStr ''response.done'')"
    and r: "py_get response ''response'' (JObj []) = Inr r"
    and out: "py_get r ''output'' (JArr []) = Inr outputs"
    and items: "py_iter outputs = Inr (before @ item # after)"
    and quiet1: "item_loop ev before s = (s1, e1, Inr Next)"
    and role: "py_get item ''role'' (JStr ''assistant'') = Inr role"
    and content: "py_get item ''content'' (JArr []) = Inr content"
    and pieces: "py_iter content = Inr (cbefore @ piece # cafter)"
    and quiet2: "content_loop ev role cbefore s1 = (s2, e2, Inr Next)"
    and piece: "py_get piece ''type'' JNull = Inr (JStr ''audio'')"
      "py_get piece ''transcript'' JNull = Inr (JStr t)"
      "says_goodbye t"
      "timestamped_line ev role (JStr t) = Inr line"
  shows "on_openai_message ev (Json response) s =
           goodbye_hangup ev (s2\<lparr>transcript_log := transcript_log s2 @ [line]\<rparr>)"
    and "only_log s s2"
proof -
  let ?g = "goodbye_hangup ev (s2\<lparr>transcript_log := transcript_log s2 @ [line]\<rparr>)"
  from item_loop_quiet [OF quiet1] have q1: "e1 = []" "only_log s s1" by simp_all
  from content_loop_quiet [OF quiet2] have q2: "e2 = []" "only_log s1 s2" by simp_all
  show "only_log s s2" using q1 q2 by (blast intro: only_log_trans)
  have cp: "content_piece_step ev role piece s2 = ?g"
    by (rule goodbye_piece [OF piece])
  have "content_loop ev role (piece # cafter) s2 = ?g"
    using seq_leaves_loop [of "content_piece_step ev role piece" s2] goodbye_hangup_not_next [of ev]
    by (simp add: cp)
  with content_loop_append [of ev role cbefore s1 s2] quiet2 q2
  have cl: "content_loop ev role (cbefore @ piece # cafter) s1 = ?g" by simp
  have "item_step ev item s1 = ?g"
    using role content pieces cl by (cases ?g) (simp add: item_step_def seq_def lift_def)
  then have "item_loop ev (item # after) s1 = ?g"
    using seq_leaves_loop [of "item_step ev item" s1] goodbye_hangup_not_next [of ev]
    by simp
  with item_loop_append [of ev before s s1] quiet1 q1
  have il: "item_loop ev (before @ item # after) s = ?g" by simp
  have "response_done ev response s = item_loop ev (before @ item # after) s"
    unfolding response_done_def
    using r out items seq_leaves_loop [of "item_loop ev (before @ item # after)" s]
      goodbye_hangup_not_next [of ev] il
    by (simp add: seq_lift_Inr)
  with il have rd: "response_done ev response s = ?g" by simp
  have "on_openai_message ev (Json response) s = response_done ev response s"
    unfolding on_openai_message_def
    using ty seq_leaves_loop [of "response_done ev response" s] goodbye_hangup_not_next [of ev] rd
    by (simp add: seq_lift_Inr seq_ret json_loads_def)
  with rd show "on_openai_message ev (Json response) s = ?g" by simp
qed

lemma goodbye_hangup_eval:
  "goodbye_hangup ev s =
     (if \<not> twilio_open s then (s, [], Inl RuntimeError)
      else if upload_raises ev (transcript_log s) then
        (s, [ToTwilio (farewell_event (stream_sid s)), ToTwilio (stop_event (stream_sid s)),
             TranscriptHandoff (transcript_log s)], Inl StorageError)
      else
        (s\<lparr>openai_open := False, twilio_open := False\<rparr>,
         [ToTwilio (farewell_event (stream_sid s)), ToTwilio (stop_event (stream_sid s)),
          TranscriptHandoff (transcript_log s)] @ gcs_upload_of ev (transcript_log s)
           @ [CloseOpenAI, CloseTwilio], Inr Return))"
  by (simp add: goodbye_hangup_def upload_transcript_to_gcs_def proc_defs farewell_event_def media_event_def
      stop_event_def gcs_upload_of_def upload_raises_def)

lemma only_logD:
  "only_log s s' \<Longrightarrow> twilio_open s' = twilio_open s \<and> stream_sid s' = stream_sid s
     \<and> openai_open s' = openai_open s \<and> send_to_twilio_done s' = send_to_twilio_done s"
  by (auto simp: only_log_def)

subsection \<open>Statements that leave the shared variables alone\<close>

lemma keeps_ret: "keeps (ret x)"
  by (simp add: keeps_def unchanged_def ret_def)

lemma keeps_lift: "keeps (lift r)"
  by (simp add: keeps_def unchanged_def lift_def)

lemma keeps_gets: "keeps (gets f)"
  by (simp add: keeps_def unchanged_def gets_def)

lemma keeps_emit: "keeps (emit e)"
  by (simp add: keeps_def unchanged_def emit_def)

lemma keeps_seq:
  assumes "keeps m" and "\<And>a. keeps (f a)"
  shows "keeps (seq m f)"
proof -
  have "unchanged s (fst (seq m f s))" for s
  proof (cases "m s")
    case (fields s1 e1 r)
    from assms(1) have u1: "unchanged s s1"
      using fields by (simp add: keeps_def) (metis fst_conv)
    show ?thesis
    proof (cases r)
      case (Inl err)
      with fields u1 show ?thesis by (simp add: seq_def)
    next
      case (Inr a)
      from assms(2) have "unchanged s1 (fst (f a s1))" by (simp add: keeps_def)
      with u1 have "unchanged s (fst (f a s1))" by (simp add: unchanged_def)
      with fields Inr show ?thesis by (cases "f a s1") (simp add: seq_def)
    qed
  qed
  then show ?thesis by (simp add: keeps_def)
qed

lemma keeps_if: "keeps a \<Longrightarrow> keeps b \<Longrightarrow> keeps (if c then a else b)"
  by simp

lemma keeps_append_line: "keeps (append_line l)"
  by (simp add: keeps_def unchanged_def append_line_def modify_def)

lemma keeps_openai_close: "keeps openai_close"
  by (simp add: keeps_def unchanged_def openai_close_def)

lemma keeps_twilio_close: "keeps twilio_close"
  by (simp add: keeps_def unchanged_def twilio_close_def)

lemma keeps_twilio_send_json: "keeps (twilio_send_json j)"
  by (simp add: keeps_def unchanged_def twilio_send_json_def)

lemma keeps_openai_send: "keeps (openai_send j)"
  by (simp add: keeps_def unchanged_def openai_send_def)

lemmas keeps_intros = keeps_seq keeps_ret keeps_lift keeps_gets keeps_emit keeps_if
  keeps_append_line keeps_openai_close keeps_twilio_close keeps_twilio_send_json keeps_openai_send

lemma keeps_upload: "keeps (upload_transcript_to_gcs ev ls)"
  unfolding upload_transcript_to_gcs_def by (intro keeps_intros)

lemma keeps_goodbye_hangup: "keeps (goodbye_hangup ev)"
  unfolding goodbye_hangup_def by (intro keeps_intros keeps_upload)

lemma keeps_content_piece_step: "keeps (content_piece_step ev role cp)"
  unfolding content_piece_step_def
  by (intro keeps_intros keeps_goodbye_hangup) (simp add: keeps_intros keeps_goodbye_hangup split: json.split)

lemma keeps_content_loop: "keeps (content_loop ev role cps)"
proof (induction cps)
  case Nil
  show ?case by (simp add: keeps_ret)
next
  case (Cons cp cps)
  show ?case
    by (simp, intro keeps_seq keeps_content_piece_step) (simp add: keeps_ret Cons split: flow.split)
qed

lemma keeps_item_step: "keeps (item_step ev item)"
  unfolding item_step_def by (intro keeps_intros keeps_content_loop)

lemma keeps_item_loop: "keeps (item_loop ev items)"
proof (induction items)
  case Nil
  show ?case by (simp add: keeps_ret)
next
  case (Cons item items)
  show ?case
    by (simp, intro keeps_seq keeps_item_step) (simp add: keeps_ret Cons split: flow.split)
qed

lemma keeps_response_done: "keeps (response_done ev response)"
  unfolding response_done_def
  by (intro keeps_seq keeps_lift keeps_item_loop)
     (simp add: keeps_intros split: flow.split)

lemma keeps_input_audio_text: "keeps (input_audio_text response)"
  unfolding input_audio_text_def
  by (intro keeps_intros) (simp add: keeps_def unchanged_def modify_def lift_def split: json.split)

lemma keeps_speech_stopped: "keeps (speech_stopped ev)"
  unfolding speech_stopped_def
  by (intro keeps_intros) (simp add: keeps_def unchanged_def modify_def)

lemma keeps_committed: "keeps (committed ev)"
  unfolding committed_def by (intro keeps_intros)

lemma keeps_preserves: "frame_stable I \<Longrightarrow> keeps m \<Longrightarrow> preserves I m"
  by (auto simp: frame_stable_def keeps_def preserves_def)

lemma preserves_seq:
  assumes "preserves I m" and "\<And>a. preserves I (f a)"
  shows "preserves I (seq m f)"
proof -
  have "I (fst (seq m f s))" if "I s" for s
  proof (cases "m s")
    case (fields s1 e1 r)
    from assms(1) that have i1: "I s1"
      using fields by (simp add: preserves_def) (metis fst_conv)
    show ?thesis
    proof (cases r)
      case (Inl err)
      with fields i1 show ?thesis by (simp add: seq_def)
    next
      case (Inr a)
      from assms(2) i1 have "I (fst (f a s1))" by (simp add: preserves_def)
      with fields Inr show ?thesis by (cases "f a s1") (simp add: seq_def)
    qed
  qed
  then show ?thesis by (simp add: preserves_def)
qed

lemma preserves_if: "preserves I a \<Longrightarrow> preserves I b \<Longrightarrow> preserves I (if c then a else b)"
  by simp

lemma preserves_flow: "preserves I a \<Longrightarrow> preserves I b \<Longrightarrow> preserves I (case fl of Next \<Rightarrow> a | Return \<Rightarrow> b)"
  by (cases fl) simp_all

lemma preserves_on_openai_message:
  assumes r: "frame_stable I"
    and d: "\<And>response. preserves I (audio_delta ev response)"
    and h: "preserves I handle_speech_started_event"
  shows "preserves I (on_openai_message ev m)"
proof -
  note k = keeps_preserves [OF r]
  note leaves = k [OF keeps_lift] k [OF keeps_ret] k [OF keeps_gets] k [OF keeps_response_done]
    k [OF keeps_input_audio_text] k [OF keeps_speech_stopped] k [OF keeps_committed]
  show ?thesis
    unfolding on_openai_message_def
    by (intro preserves_seq preserves_if preserves_flow d h leaves)
qed

lemma stable_in_flight: "frame_stable in_flight_has_start"
  by (simp add: frame_stable_def unchanged_def in_flight_has_start_def)

lemma stable_queued: "frame_stable queued_marks_have_stream"
  by (simp add: frame_stable_def unchanged_def queued_marks_have_stream_def)

lemma audio_delta_in_flight: "preserves in_flight_has_start (audio_delta ev response)"
  by (auto simp: preserves_def in_flight_has_start_def audio_delta_def send_mark_def proc_defs
      split: sum.splits prod.splits if_splits)

lemma speech_started_in_flight: "preserves in_flight_has_start handle_speech_started_event"
  by (auto simp: preserves_def in_flight_has_start_def handle_speech_started_event_def proc_defs
      split: sum.splits prod.splits if_splits option.splits)

lemma audio_delta_queued: "preserves queued_marks_have_stream (audio_delta ev response)"
  by (auto simp: preserves_def queued_marks_have_stream_def audio_delta_def send_mark_def proc_defs
      split: sum.splits prod.splits if_splits)

lemma speech_started_queued: "preserves queued_marks_have_stream handle_speech_started_event"
  by (auto simp: preserves_def queued_marks_have_stream_def handle_speech_started_event_def proc_defs
      split: sum.splits prod.splits if_splits option.splits)

lemma frame_stableD: "frame_stable I \<Longrightarrow> unchanged s s' \<Longrightarrow> I s \<Longrightarrow> I s'"
  by (auto simp: frame_stable_def)

lemma send_to_twilio_step_inv:
  assumes r: "frame_stable I"
    and m: "\<And>m. preserves I (on_openai_message ev m)"
    and i: "I s"
  shows "I (fst (send_to_twilio_step ev inp s))"
proof (cases inp)
  case (AiFrame msg)
  obtain s1 e1 res where o: "on_openai_message ev msg s = (s1, e1, res)"
    by (cases "on_openai_message ev msg s") auto
  from m i o have i1: "I s1"
    by (simp add: preserves_def) (metis fst_conv)
  have "I (s1\<lparr>send_to_twilio_done := True\<rparr>)"
    by (rule frame_stableD [OF r _ i1]) (simp add: unchanged_def)
  with i1 o AiFrame show ?thesis
    by (simp add: send_to_twilio_step_def split: sum.split flow.split)
next
  case AiClosedOK
  have "I (s\<lparr>openai_open := False, send_to_twilio_done := True\<rparr>)"
    by (rule frame_stableD [OF r _ i]) (simp add: unchanged_def)
  with AiClosedOK show ?thesis by (simp add: send_to_twilio_step_def)
next
  case AiClosedError
  have "I (s\<lparr>openai_open := False, send_to_twilio_done := True\<rparr>)"
    by (rule frame_stableD [OF r _ i]) (simp add: unchanged_def)
  with AiClosedError show ?thesis by (simp add: send_to_twilio_step_def)
qed

lemma keeps_receive_from_twilio_except: "keeps (receive_from_twilio_except err)"
  unfolding receive_from_twilio_except_def by (intro keeps_intros)

lemma receive_from_twilio_step_inv:
  assumes r: "frame_stable I"
    and m: "\<And>msg. inp = TwFrame msg \<Longrightarrow> I (fst (on_twilio_message ev msg s))"
    and i: "I s"
  shows "I (fst (receive_from_twilio_step ev inp s))"
proof (cases inp)
  case TwDisconnect
  have "unchanged s (s\<lparr>twilio_open := False, receive_from_twilio_done := True\<rparr>)"
    by (simp add: unchanged_def)
  from frame_stableD [OF r this i] TwDisconnect show ?thesis
    by (simp add: receive_from_twilio_step_def)
next
  case (TwFrame msg)
  obtain s1 e1 res where o: "on_twilio_message ev msg s = (s1, e1, res)"
    by (cases "on_twilio_message ev msg s") auto
  from m [OF TwFrame] o have i1: "I s1" by simp
  have d: "I (s1\<lparr>receive_from_twilio_done := True\<rparr>)"
    by (rule frame_stableD [OF r _ i1]) (simp add: unchanged_def)
  show ?thesis
  proof (cases res)
    case (Inr fl)
    with o TwFrame i1 d show ?thesis
      by (cases fl) (simp_all add: receive_from_twilio_step_def)
  next
    case (Inl err)
    obtain s2 e2 res2 where x: "receive_from_twilio_except err s1 = (s2, e2, res2)"
      by (cases "receive_from_twilio_except err s1") auto
    have "unchanged s1 s2"
      using keeps_receive_from_twilio_except [of err] x
      by (simp add: keeps_def) (metis fst_conv)
    then have "unchanged s1 (s2\<lparr>receive_from_twilio_done := True\<rparr>)"
      by (simp add: unchanged_def)
    from frame_stableD [OF r this i1] x o Inl TwFrame show ?thesis
      by (simp add: receive_from_twilio_step_def)
  qed
qed

lemma preserves_modify: "(\<And>s. I s \<Longrightarrow> I (f s)) \<Longrightarrow> preserves I (modify f)"
  by (simp add: preserves_def modify_def)

lemma on_twilio_message_in_flight: "preserves in_flight_has_start (on_twilio_message ev msg)"
proof -
  note k = keeps_preserves [OF stable_in_flight]
  note leaves = k [OF keeps_lift] k [OF keeps_ret] k [OF keeps_gets] k [OF keeps_upload]
    k [OF keeps_openai_send] k [OF keeps_openai_close]
  show ?thesis
    unfolding on_twilio_message_def
    by (intro preserves_seq preserves_if preserves_modify leaves)
       (simp_all add: in_flight_has_start_def)
qed

lemma on_twilio_message_queued:
  assumes "start_carries_stream (FromTwilio (TwFrame msg))" and "queued_marks_have_stream s"
  shows "queued_marks_have_stream (fst (on_twilio_message ev msg s))"
proof (cases msg)
  case NotJson
  with assms show ?thesis by (simp add: on_twilio_message_def json_loads_def proc_defs)
next
  case (Json data)
  show ?thesis
  proof (cases "py_getitem data ''event''")
    case (Inl err)
    with Json assms show ?thesis by (simp add: on_twilio_message_def json_loads_def proc_defs)
  next
    case (Inr event)
    consider (media) "event = JStr ''media''" | (start) "event = JStr ''start''"
      | (mark) "event = JStr ''mark''" | (stop) "event = JStr ''stop''"
      | (other) "event \<noteq> JStr ''media''" "event \<noteq> JStr ''start''" "event \<noteq> JStr ''mark''" "event \<noteq> JStr ''stop''"
      by blast
    then show ?thesis
    proof cases
      case media
      with Json Inr assms show ?thesis
        by (auto simp: on_twilio_message_def json_loads_def proc_defs queued_marks_have_stream_def
            split: sum.splits)
    next
      case start
      with Json Inr assms show ?thesis
        by (auto simp: on_twilio_message_def json_loads_def proc_defs queued_marks_have_stream_def
            start_carries_stream_def split: sum.splits)
    next
      case mark
      with Json Inr assms show ?thesis
        by (cases "mark_queue s")
           (auto simp: on_twilio_message_def json_loads_def proc_defs queued_marks_have_stream_def)
    next
      case stop
      with Json Inr assms show ?thesis
        by (auto simp: on_twilio_message_def json_loads_def proc_defs queued_marks_have_stream_def
            upload_transcript_to_gcs_def)
    next
      case other
      with Json Inr assms show ?thesis
        by (simp add: on_twilio_message_def json_loads_def proc_defs)
    qed
  qed
qed

lemma relay_step_in_flight:
  "in_flight_has_start s \<Longrightarrow> in_flight_has_start (fst (relay_step ev e s))"
proof (cases e)
  case (FromTwilio inp)
  assume i: "in_flight_has_start s"
  have "in_flight_has_start (fst (receive_from_twilio_step ev inp s))"
    by (rule receive_from_twilio_step_inv [OF stable_in_flight _ i])
       (use on_twilio_message_in_flight i in \<open>simp add: preserves_def\<close>)
  with i FromTwilio show ?thesis by (simp add: relay_step_def)
next
  case (FromOpenAI inp)
  assume i: "in_flight_has_start s"
  have "in_flight_has_start (fst (send_to_twilio_step ev inp s))"
    by (rule send_to_twilio_step_inv [OF stable_in_flight _ i])
       (rule preserves_on_openai_message [OF stable_in_flight audio_delta_in_flight speech_started_in_flight])
  with i FromOpenAI show ?thesis by (simp add: relay_step_def)
qed

lemma relay_step_queued:
  assumes "start_carries_stream e" and i: "queued_marks_have_stream s"
  shows "queued_marks_have_stream (fst (relay_step ev e s))"
proof (cases e)
  case (FromTwilio inp)
  have "queued_marks_have_stream (fst (receive_from_twilio_step ev inp s))"
    by (rule receive_from_twilio_step_inv [OF stable_queued _ i])
       (use on_twilio_message_queued assms FromTwilio in simp)
  with i FromTwilio show ?thesis by (simp add: relay_step_def)
next
  case (FromOpenAI inp)
  have "queued_marks_have_stream (fst (send_to_twilio_step ev inp s))"
    by (rule send_to_twilio_step_inv [OF stable_queued _ i])
       (rule preserves_on_openai_message [OF stable_queued audio_delta_queued speech_started_queued])
  with i FromOpenAI show ?thesis by (simp add: relay_step_def)
qed

subsection \<open>After the telephony link is gone\<close>

lemma handoffs_append: "handoffs (xs @ ys) = handoffs xs + handoffs ys"
  by (simp add: handoffs_def)

lemma muteD:
  assumes "mute m" and "cut_off s" and "m s = (s1, e1, r)"
  shows "cut_off s1" and "handoffs e1 = 0"
  using assms by (auto simp: mute_def dest!: spec [of _ s])

lemma mute_ret: "mute (ret x)"
  by (simp add: mute_def ret_def handoffs_def)

lemma mute_lift: "mute (lift r)"
  by (simp add: mute_def lift_def handoffs_def)

lemma mute_gets: "mute (gets f)"
  by (simp add: mute_def gets_def handoffs_def)

lemma mute_modify: "(\<And>s. cut_off s \<Longrightarrow> cut_off (f s)) \<Longrightarrow> mute (modify f)"
  by (simp add: mute_def modify_def handoffs_def)

lemma mute_emit: "\<not> is_handoff e \<Longrightarrow> mute (emit e)"
  by (simp add: mute_def emit_def handoffs_def)

lemma mute_if: "mute a \<Longrightarrow> mute b \<Longrightarrow> mute (if c then a else b)"
  by simp

lemma mute_flow: "mute a \<Longrightarrow> mute b \<Longrightarrow> mute (case fl of Next \<Rightarrow> a | Return \<Rightarrow> b)"
  by (cases fl) simp_all

lemma mute_seq:
  assumes "mute m" and "\<And>a. mute (f a)"
  shows "mute (seq m f)"
proof -
  have "cut_off (fst (seq m f s)) \<and> handoffs (fst (snd (seq m f s))) = 0" if c: "cut_off s" for s
  proof (cases "m s")
    case (fields s1 e1 r)
    note m1 = muteD [OF assms(1) c fields]
    show ?thesis
    proof (cases r)
      case (Inl err)
      with fields m1 show ?thesis by (simp add: seq_def)
    next
      case (Inr a)
      obtain s2 e2 r2 where f: "f a s1 = (s2, e2, r2)" by (cases "f a s1") auto
      note m2 = muteD [OF assms(2) m1(1) f]
      from fields Inr f m1 m2 show ?thesis by (simp add: seq_def handoffs_append)
    qed
  qed
  then show ?thesis by (simp add: mute_def)
qed

lemma mute_try_except:
  assumes "mute m" and "\<And>e. mute (h e)"
  shows "mute (try_except m h)"
proof -
  have "cut_off (fst (try_except m h s)) \<and> handoffs (fst (snd (try_except m h s))) = 0"
    if c: "cut_off s" for s
  proof (cases "m s")
    case (fields s1 e1 r)
    note m1 = muteD [OF assms(1) c fields]
    show ?thesis
    proof (cases r)
      case (Inr a)
      with fields m1 show ?thesis by (simp add: try_except_def)
    next
      case (Inl err)
      obtain s2 e2 r2 where f: "h err s1 = (s2, e2, r2)" by (cases "h err s1") auto
      note m2 = muteD [OF assms(2) m1(1) f]
      from fields Inl f m1 m2 show ?thesis by (simp add: try_except_def handoffs_append)
    qed
  qed
  then show ?thesis by (simp add: mute_def)
qed

lemma mute_twilio_send_json: "mute (twilio_send_json j)"
  by (simp add: mute_def twilio_send_json_def cut_off_def handoffs_def)

lemma mute_openai_send: "mute (openai_send j)"
  by (simp add: mute_def openai_send_def cut_off_def handoffs_def)

lemma mute_append_line: "mute (append_line l)"
  unfolding append_line_def by (rule mute_modify) (simp add: cut_off_def)

lemma mute_goodbye_hangup: "mute (goodbye_hangup ev)"
  by (simp add: mute_def goodbye_hangup_eval cut_off_def handoffs_def)

lemmas mute_intros = mute_seq mute_ret mute_lift mute_gets mute_if mute_flow mute_try_except
  mute_twilio_send_json mute_openai_send mute_append_line mute_goodbye_hangup

lemma mute_content_piece_step: "mute (content_piece_step ev role cp)"
  unfolding content_piece_step_def
  by (intro mute_intros) (simp add: mute_intros split: json.split)

lemma mute_content_loop: "mute (content_loop ev role cps)"
proof (induction cps)
  case Nil
  show ?case by (simp add: mute_ret)
next
  case (Cons cp cps)
  show ?case
    by (simp, intro mute_seq mute_content_piece_step mute_flow mute_ret Cons)
qed

lemma mute_item_step: "mute (item_step ev item)"
  unfolding item_step_def by (intro mute_intros mute_content_loop)

lemma mute_item_loop: "mute (item_loop ev items)"
proof (induction items)
  case Nil
  show ?case by (simp add: mute_ret)
next
  case (Cons item items)
  show ?case
    by (simp, intro mute_seq mute_item_step mute_flow mute_ret Cons)
qed

lemma mute_response_done: "mute (response_done ev response)"
  unfolding response_done_def by (intro mute_intros mute_item_loop)

lemma mute_send_mark: "mute (send_mark sid)"
  unfolding send_mark_def
  by (intro mute_intros mute_modify) (simp add: cut_off_def)

lemma mute_audio_delta: "mute (audio_delta ev response)"
  unfolding audio_delta_def
  by (intro mute_intros mute_modify mute_emit mute_send_mark) (simp_all add: cut_off_def)

lemma mute_handle_speech_started_event: "mute handle_speech_started_event"
proof -
  have "mute (\<lambda>s. handle_speech_started_event s)"
    unfolding handle_speech_started_event_def mute_def
    by (auto simp: cut_off_def proc_defs handoffs_def split: option.splits)
  then show ?thesis .
qed

lemma mute_input_audio_text: "mute (input_audio_text response)"
  unfolding input_audio_text_def
  by (intro mute_intros) (auto split: json.split intro!: mute_modify mute_lift simp: cut_off_def)

lemma mute_speech_stopped: "mute (speech_stopped ev)"
  unfolding speech_stopped_def
  by (intro mute_intros mute_modify) (simp add: cut_off_def)

lemma mute_committed: "mute (committed ev)"
  unfolding committed_def by (intro mute_intros)

lemma mute_on_openai_message: "mute (on_openai_message ev m)"
  unfolding on_openai_message_def
  by (intro mute_intros mute_audio_delta mute_response_done mute_input_audio_text
      mute_speech_stopped mute_committed mute_handle_speech_started_event)

lemma relay_step_cut_off:
  assumes c: "cut_off s"
  shows "cut_off (fst (relay_step ev e s)) \<and> handoffs (snd (relay_step ev e s)) = 0"
proof (cases e)
  case (FromTwilio inp)
  with c show ?thesis by (simp add: relay_step_def cut_off_def handoffs_def)
next
  case (FromOpenAI inp)
  show ?thesis
  proof (cases inp)
    case (AiFrame msg)
    obtain s1 e1 r where o: "on_openai_message ev msg s = (s1, e1, r)"
      by (cases "on_openai_message ev msg s") auto
    note m = muteD [OF mute_on_openai_message c o]
    from m have "cut_off (s1\<lparr>send_to_twilio_done := True\<rparr>)" by (simp add: cut_off_def)
    with m o c FromOpenAI AiFrame show ?thesis
      by (auto simp: relay_step_def send_to_twilio_step_def handoffs_append handoffs_def
          split: sum.split flow.split)
  next
    case AiClosedOK
    with c FromOpenAI show ?thesis
      by (simp add: relay_step_def send_to_twilio_step_def cut_off_def handoffs_def)
  next
    case AiClosedError
    with c FromOpenAI show ?thesis
      by (simp add: relay_step_def send_to_twilio_step_def cut_off_def handoffs_def)
  qed
qed

lemma run_cut_off: "cut_off s \<Longrightarrow> handoffs (snd (run ev es s)) = 0"
proof (induction es arbitrary: s)
  case Nil
  show ?case by (simp add: handoffs_def)
next
  case (Cons e es)
  obtain s1 e1 where st: "relay_step ev e s = (s1, e1)" by (cases "relay_step ev e s") auto
  from relay_step_cut_off [OF Cons.prems, of ev e] st have c1: "cut_off s1" "handoffs e1 = 0"
    by simp_all
  obtain s2 e2 where r: "run ev es s1 = (s2, e2)" by (cases "run ev es s1") auto
  from Cons.IH [OF c1(1)] r have "handoffs e2 = 0" by simp
  with st r c1 show ?case by (simp add: handoffs_append)
qed

lemma run_append:
  "run ev (xs @ ys) s = (case run ev xs s of (s1, e1) \<Rightarrow> (case run ev ys s1 of (s2, e2) \<Rightarrow> (s2, e1 @ e2)))"
  by (induction xs arbitrary: s) (auto split: prod.splits)

section \<open>The claims\<close>

subsection \<open>Interruption\<close>



subsection \<open>Goodbye\<close>

text \<open>
  C2 (amended).  A \<^verbatim>\<open>response.done\<close> event is given whose output reaches an audio
  piece with a transcript that contains one of \<^verbatim>\<open>BYE_KEYWORDS\<close> after lowering
  its case; the items and pieces before it are passed without a goodbye and without an
  exception, the role of its item is a string, the telephony link is open and the
  upload of the transcript does not raise.  Then the relay appends the line of that
  piece to the transcript and after that sends exactly one farewell \<^verbatim>\<open>media\<close>
  event and exactly one \<^verbatim>\<open>stop\<close> event to the telephony link, hands the
  transcript (with the new line) to \<^verbatim>\<open>upload_transcript_to_gcs\<close> exactly once,
  closes the AI link and the telephony link, and \<^verbatim>\<open>send_to_twilio\<close> returns: the
  pieces and items after it and the \<^verbatim>\<open>input\<close> field of the response are not
  processed, and no later input of the AI link is processed.
\<close>

theorem goodbye_ends_the_call:
  assumes "py_getitem response ''type'' = Inr (JStr ''response.done'')"
    and "py_get response ''response'' (JObj []) = Inr r"
    and "py_get r ''output'' (JArr []) = Inr outputs"
    and "py_iter outputs = Inr (before @ item # after)"
    and "item_loop ev before s = (s1, e1, Inr Next)"
    and "py_get item ''role'' (JStr ''assistant'') = Inr role"
    and "py_get item ''content'' (JArr []) = Inr content"
    and "py_iter content = Inr (cbefore @ piece # cafter)"
    and "content_loop ev role cbefore s1 = (s2, e2, Inr Next)"
    and "py_get piece ''type'' JNull = Inr (JStr ''audio'')"
    and "py_get piece ''transcript'' JNull = Inr (JStr t)"
    and "says_goodbye t"
    and "timestamped_line ev role (JStr t) = Inr line"
    and "twilio_open s" and "\<not> upload_raises ev (transcript_log s2 @ [line])"
    and "\<not> send_to_twilio_done s"
    and "final = s2\<lparr>transcript_log := transcript_log s2 @ [line], openai_open := False,
                     twilio_open := False, send_to_twilio_done := True\<rparr>"
  shows "relay_step ev (FromOpenAI (AiFrame (Json response))) s =
           (final,
            [ToTwilio (farewell_event (stream_sid s)), ToTwilio (stop_event (stream_sid s)),
             TranscriptHandoff (transcript_log s2 @ [line])]
             @ gcs_upload_of ev (transcript_log s2 @ [line]) @ [CloseOpenAI, CloseTwilio])
         \<and> only_log s s2
         \<and> run ev (map FromOpenAI later) final = (final, [])"
proof -
  let ?s' = "s2\<lparr>transcript_log := transcript_log s2 @ [line]\<rparr>"
  have g: "on_openai_message ev (Json response) s = goodbye_hangup ev ?s'"
    and l: "only_log s s2"
    using goodbye_reached [OF assms(1-13)] by simp_all
  from only_logD [OF l] assms(14) have o: "twilio_open ?s'" "stream_sid ?s' = stream_sid s" by simp_all
  from assms(15) have u: "\<not> upload_raises ev (transcript_log ?s')" by simp
  have "goodbye_hangup ev ?s' =
          (?s'\<lparr>openai_open := False, twilio_open := False\<rparr>,
           [ToTwilio (farewell_event (stream_sid s)), ToTwilio (stop_event (stream_sid s)),
            TranscriptHandoff (transcript_log s2 @ [line])]
            @ gcs_upload_of ev (transcript_log s2 @ [line]) @ [CloseOpenAI, CloseTwilio], Inr Return)"
    using o u by (simp add: goodbye_hangup_eval)
  with g assms(16,17) have "relay_step ev (FromOpenAI (AiFrame (Json response))) s =
           (final,
            [ToTwilio (farewell_event (stream_sid s)), ToTwilio (stop_event (stream_sid s)),
             TranscriptHandoff (transcript_log s2 @ [line])]
             @ gcs_upload_of ev (transcript_log s2 @ [line]) @ [CloseOpenAI, CloseTwilio])"
    by (simp add: relay_step_def send_to_twilio_step_def)
  moreover have "run ev (map FromOpenAI later) final = (final, [])"
    by (rule run_after_send_to_twilio_done) (simp add: assms(17))
  ultimately show ?thesis using l by simp
qed

text \<open>The claim as it was written fails.  When the telephony link is gone, a
  goodbye only logs the error of the farewell: nothing is sent or handed off and the
  AI link is not closed.  When the storage client fails, neither link is closed.  When
  the role of the item is \<^verbatim>\<open>null\<close>, no line is appended and nothing is sent.  A
  piece of type \<^verbatim>\<open>text\<close> is not looked at, whatever its transcript says.  And a
  telephony \<^verbatim>\<open>stop\<close> event taken up after the goodbye is processed and hands
  the transcript off a second time.\<close>

theorem goodbye_counterexample:
  "run example_env
     [FromTwilio TwDisconnect,
      FromOpenAI (AiFrame (Json (one_piece_response (JStr ''assistant'') (audio_piece ''Goodbye, take care.''))))]
     initial =
     (initial\<lparr>transcript_log := [''[12:00:00] ASSISTANT: Goodbye, take care.''],
              openai_open := True, twilio_open := False,
              receive_from_twilio_done := True, send_to_twilio_done := True\<rparr>,
      [LogError RuntimeError])
   \<and> relay_step (example_env\<lparr>storage_ok := False\<rparr>)
        (FromOpenAI (AiFrame (Json (one_piece_response (JStr ''assistant'') (audio_piece ''Goodbye, take care.'')))))
        speaking =
     (speaking\<lparr>transcript_log := [''[12:00:00] ASSISTANT: Goodbye, take care.''],
               openai_open := True, twilio_open := True, send_to_twilio_done := True\<rparr>,
      [ToTwilio (farewell_event (JStr ''CA123'')), ToTwilio (stop_event (JStr ''CA123'')),
       TranscriptHandoff [''[12:00:00] ASSISTANT: Goodbye, take care.''],
       LogError StorageError])
   \<and> relay_step example_env
        (FromOpenAI (AiFrame (Json (one_piece_response JNull (audio_piece ''Goodbye, take care.'')))))
        initial =
     (initial\<lparr>send_to_twilio_done := True\<rparr>, [LogError AttributeError])
   \<and> relay_step example_env
        (FromOpenAI (AiFrame (Json (one_piece_response (JStr ''assistant'')
           (JObj [(''type'', JStr ''text''), (''transcript'', JStr ''Goodbye, take care.'')])))))
        initial = (initial, [])
   \<and> handoffs (snd (run example_env
        [FromOpenAI (AiFrame (Json (one_piece_response (JStr ''assistant'') (audio_piece ''Goodbye, take care.'')))),
         FromTwilio (TwFrame twilio_stop)] initial)) = 2"
  by code_simp

theorem goodbye_ends_the_call_witness:
  "relay_step example_env (FromOpenAI (AiFrame (Json farewell_response))) initial =
     (initial\<lparr>transcript_log := [''[12:00:00] ASSISTANT: Sure.'',
                                   ''[12:00:00] ASSISTANT: Goodbye, take care.''],
              openai_open := False, twilio_open := False, send_to_twilio_done := True\<rparr>,
      [ToTwilio (farewell_event JNull), ToTwilio (stop_event JNull),
       TranscriptHandoff [''[12:00:00] ASSISTANT: Sure.'', ''[12:00:00] ASSISTANT: Goodbye, take care.''],
       GcsUpload (''[12:00:00] ASSISTANT: Sure.'' @ [CHR 0x0A] @ ''[12:00:00] ASSISTANT: Goodbye, take care.''),
       CloseOpenAI, CloseTwilio])
   \<and> says_goodbye ''Goodbye, take care.''"
proof -
  let ?s1 = "initial\<lparr>transcript_log := [''[12:00:00] ASSISTANT: Sure.'']\<rparr>"
  let ?text = "JObj [(''type'', JStr ''text''), (''text'', JStr ''ok'')]"
  let ?outputs = "JArr [assistant_item [audio_piece ''Sure.''],
               assistant_item [?text, audio_piece ''Goodbye, take care.'', audio_piece ''One more thing.''],
               assistant_item [audio_piece ''Hello again.'']]"
  have h1: "py_getitem farewell_response ''type'' = Inr (JStr ''response.done'')"
    by (simp add: farewell_response_def)
  have h2: "py_get farewell_response ''response'' (JObj []) = Inr (JObj [(''output'', ?outputs)])"
    by (simp add: farewell_response_def)
  have h3: "py_get (JObj [(''output'', ?outputs)]) ''output'' (JArr []) = Inr ?outputs"
    by simp
  have h4: "py_iter ?outputs = Inr ([assistant_item [audio_piece ''Sure.'']]
      @ assistant_item [?text, audio_piece ''Goodbye, take care.'', audio_piece ''One more thing.'']
      # [assistant_item [audio_piece ''Hello again.'']])"
    by simp
  have h5: "item_loop example_env [assistant_item [audio_piece ''Sure.'']] initial = (?s1, [], Inr Next)"
    by code_simp
  have h6: "py_get (assistant_item [?text, audio_piece ''Goodbye, take care.'', audio_piece ''One more thing.''])
      ''role'' (JStr ''assistant'') = Inr (JStr ''assistant'')"
    by (simp add: assistant_item_def)
  have h7: "py_get (assistant_item [?text, audio_piece ''Goodbye, take care.'', audio_piece ''One more thing.''])
      ''content'' (JArr [])
      = Inr (JArr [?text, audio_piece ''Goodbye, take care.'', audio_piece ''One more thing.''])"
    by (simp add: assistant_item_def)
  have h8: "py_iter (JArr [?text, audio_piece ''Goodbye, take care.'', audio_piece ''One more thing.''])
      = Inr ([?text] @ audio_piece ''Goodbye, take care.'' # [audio_piece ''One more thing.''])"
    by simp
  have h9: "content_loop example_env (JStr ''assistant'') [?text] ?s1 = (?s1, [], Inr Next)"
    by code_simp
  have h10: "py_get (audio_piece ''Goodbye, take care.'') ''type'' JNull = Inr (JStr ''audio'')"
    by (simp add: audio_piece_def)
  have h11: "py_get (audio_piece ''Goodbye, take care.'') ''transcript'' JNull = Inr (JStr ''Goodbye, take care.'')"
    by (simp add: audio_piece_def)
  have h12: "says_goodbye ''Goodbye, take care.''"
    by code_simp
  have h13: "timestamped_line example_env (JStr ''assistant'') (JStr ''Goodbye, take care.'')
      = Inr ''[12:00:00] ASSISTANT: Goodbye, take care.''"
    by code_simp
  have h14: "twilio_open initial"
    "\<not> upload_raises example_env
        (transcript_log ?s1 @ [''[12:00:00] ASSISTANT: Goodbye, take care.''])"
    "\<not> send_to_twilio_done initial"
    by (simp_all add: initial_def example_env_def upload_raises_def)
  have u: "gcs_upload_of example_env
       [''[12:00:00] ASSISTANT: Sure.'', ''[12:00:00] ASSISTANT: Goodbye, take care.'']
     = [GcsUpload (''[12:00:00] ASSISTANT: Sure.'' @ [CHR 0x0A] @ ''[12:00:00] ASSISTANT: Goodbye, take care.'')]"
    by (simp add: gcs_upload_of_def example_env_def)
  from goodbye_ends_the_call [OF h1 h2 h3 h4 h5 h6 h7 h8 h9 h10 h11 h12 h13 h14 refl, of "[]"]
  show ?thesis
    using h12 u by (simp add: initial_def)
qed

subsection \<open>Inbound audio\<close>

text \<open>
  C3 (amended).  For a telephony \<^verbatim>\<open>media\<close> event taken up by
  \<^verbatim>\<open>receive_from_twilio\<close>: while the AI link is open,
  \<^verbatim>\<open>latest_media_timestamp\<close> becomes the timestamp of the event and its payload
  is sent unchanged to the AI link as one \<^verbatim>\<open>input_audio_buffer.append\<close>; when the
  AI link is closed the event is dropped without an error and without any change of
  state, so \<^verbatim>\<open>latest_media_timestamp\<close> keeps its old value.
\<close>

theorem media_forwarded_only_while_ai_link_open:
  assumes "py_getitem data ''event'' = Inr (JStr ''media'')"
    and "py_getitem data ''media'' = Inr media"
    and "py_getitem media ''timestamp'' = Inr ts"
    and "py_int ts = Inr t"
    and "py_getitem media ''payload'' = Inr payload"
    and "\<not> receive_from_twilio_done s"
  shows "relay_step ev (FromTwilio (TwFrame (Json data))) s =
     (if openai_open s
      then (s\<lparr>latest_media_timestamp := t\<rparr>,
            [ToOpenAI (JObj [(''type'', JStr ''input_audio_buffer.append''), (''audio'', payload)])])
      else (s, []))"
  using assms
  by (simp add: relay_step_def receive_from_twilio_step_def on_twilio_message_def json_loads_def
      proc_defs)

text \<open>The claim as it was written fails: after the AI link has closed, a
  \<^verbatim>\<open>media\<close> event with timestamp 800 leaves \<^verbatim>\<open>latest_media_timestamp\<close> at 0.\<close>

theorem media_timestamp_counterexample:
  "latest_media_timestamp (fst (run example_env
      [FromOpenAI AiClosedOK,
       FromTwilio (TwFrame (twilio_media (JStr ''800'') (JStr ''AAAA'')))] initial)) = 0
   \<and> py_int (JStr ''800'') = Inr 800"
  by code_simp

theorem media_forwarded_only_while_ai_link_open_witness:
  "py_int (JStr ''800'') = Inr 800
   \<and> \<not> receive_from_twilio_done initial
   \<and> relay_step example_env (FromTwilio (TwFrame (twilio_media (JStr ''800'') (JStr ''AAAA'')))) initial
       = (initial\<lparr>latest_media_timestamp := 800\<rparr>,
          [ToOpenAI (JObj [(''type'', JStr ''input_audio_buffer.append''), (''audio'', JStr ''AAAA'')])])
   \<and> relay_step example_env (FromTwilio (TwFrame (twilio_media (JStr ''800'') (JStr ''AAAA''))))
         (initial\<lparr>openai_open := False\<rparr>) = (initial\<lparr>openai_open := False\<rparr>, [])"
proof -
  let ?media = "JObj [(''timestamp'', JStr ''800''), (''payload'', JStr ''AAAA'')]"
  let ?data = "JObj [(''event'', JStr ''media''), (''media'', ?media)]"
  have i: "py_int (JStr ''800'') = Inr 800" by code_simp
  show ?thesis
    using media_forwarded_only_while_ai_link_open
            [of ?data ?media "JStr ''800''" 800 "JStr ''AAAA''" initial example_env]
      media_forwarded_only_while_ai_link_open
            [of ?data ?media "JStr ''800''" 800 "JStr ''AAAA''" "initial\<lparr>openai_open := False\<rparr>" example_env]
    by (simp add: i twilio_media_def initial_def del: py_int.simps)
qed

subsection \<open>Outbound audio\<close>

text \<open>
  C4 (amended).  For a \<^verbatim>\<open>response.audio.delta\<close> event whose \<^verbatim>\<open>delta\<close> decodes,
  with the telephony link open, the relay sends exactly one \<^verbatim>\<open>media\<close> event to
  the telephony link whether or not \<^verbatim>\<open>stream_sid\<close> is set; when
  \<^verbatim>\<open>stream_sid\<close> is set it also sends exactly one \<^verbatim>\<open>mark\<close> event and appends
  exactly one token to \<^verbatim>\<open>mark_queue\<close>; when \<^verbatim>\<open>stream_sid\<close> is unset it sends no
  \<^verbatim>\<open>mark\<close> and \<^verbatim>\<open>mark_queue\<close> stays as it was.
\<close>

theorem audio_delta_media_and_guarded_mark:
  assumes "py_getitem response ''type'' = Inr (JStr ''response.audio.delta'')"
    and "py_getitem response ''delta'' = Inr delta"
    and "b64_recode ev delta = Inr audio_payload"
    and "twilio_open s" and "\<not> send_to_twilio_done s"
  shows "snd (relay_step ev (FromOpenAI (AiFrame (Json response))) s) =
           (if py_truthy (stream_sid s)
            then [ToTwilio (media_event (stream_sid s) audio_payload), ToTwilio (mark_event (stream_sid s))]
            else [ToTwilio (media_event (stream_sid s) audio_payload)])
       \<and> mark_queue (fst (relay_step ev (FromOpenAI (AiFrame (Json response))) s)) =
           (if py_truthy (stream_sid s) then mark_queue s @ [''responsePart''] else mark_queue s)"
  using assms
  by (cases response)
     (simp_all add: relay_step_def send_to_twilio_step_def on_openai_message_def json_loads_def
        audio_delta_def send_mark_def proc_defs media_event_def mark_event_def
        split: option.splits)

text \<open>The claim as it was written fails: before the \<^verbatim>\<open>start\<close> event has set
  \<^verbatim>\<open>stream_sid\<close>, an audio delta produces the \<^verbatim>\<open>media\<close> event but no
  \<^verbatim>\<open>mark\<close> event, and \<^verbatim>\<open>mark_queue\<close> stays empty.\<close>

theorem audio_delta_mark_counterexample:
  "relay_step example_env (FromOpenAI (AiFrame (ai_audio_delta (JStr ''r1'') (JStr ''AQID'')))) initial
     = (initial\<lparr>last_assistant_item := JStr ''r1'', response_start_timestamp_twilio := Some 0\<rparr>,
        [ToTwilio (media_event JNull ''AQID'')])
   \<and> mark_queue (fst (relay_step example_env
        (FromOpenAI (AiFrame (ai_audio_delta (JStr ''r1'') (JStr ''AQID'')))) initial)) = []"
  by code_simp

theorem audio_delta_media_and_guarded_mark_witness:
  "snd (relay_step example_env (FromOpenAI (AiFrame (ai_audio_delta (JStr ''r1'') (JStr ''AQID'')))) speaking)
     = [ToTwilio (media_event (JStr ''CA123'') ''AQID''), ToTwilio (mark_event (JStr ''CA123''))]
   \<and> mark_queue (fst (relay_step example_env
        (FromOpenAI (AiFrame (ai_audio_delta (JStr ''r1'') (JStr ''AQID'')))) speaking))
     = [''responsePart'', ''responsePart'']
   \<and> b64_recode example_env (JStr ''AQID'') = Inr ''AQID''
   \<and> twilio_open speaking \<and> \<not> send_to_twilio_done speaking"
  using audio_delta_media_and_guarded_mark
          [of "JObj [(''type'', JStr ''response.audio.delta''), (''item_id'', JStr ''r1''),
                     (''delta'', JStr ''AQID'')]" "JStr ''AQID''" example_env "''AQID''" speaking]
  by (simp add: ai_audio_delta_def speaking_def initial_def example_env_def)

subsection \<open>Failures during the goodbye sequence\<close>

text \<open>
  C5 (amended).  When a goodbye is detected (as in C2), the steps of the shutdown run
  in the order farewell \<^verbatim>\<open>media\<close>, \<^verbatim>\<open>stop\<close>, transcript handoff, closing the AI
  link, closing the telephony link, and the first step that raises ends the sequence:
  no later step is attempted, the error is logged by the handler around the loop and
  \<^verbatim>\<open>send_to_twilio\<close> ends.  If the telephony link is closed, the farewell raises
  and nothing is sent, handed off or closed; if the storage client fails, the two
  events and the handoff have happened and neither link is closed; otherwise all five
  steps happen.
\<close>

theorem goodbye_steps_stop_at_first_failure:
  assumes "py_getitem response ''type'' = Inr (JStr ''response.done'')"
    and "py_get response ''response'' (JObj []) = Inr r"
    and "py_get r ''output'' (JArr []) = Inr outputs"
    and "py_iter outputs = Inr (before @ item # after)"
    and "item_loop ev before s = (s1, e1, Inr Next)"
    and "py_get item ''role'' (JStr ''assistant'') = Inr role"
    and "py_get item ''content'' (JArr []) = Inr content"
    and "py_iter content = Inr (cbefore @ piece # cafter)"
    and "content_loop ev role cbefore s1 = (s2, e2, Inr Next)"
    and "py_get piece ''type'' JNull = Inr (JStr ''audio'')"
    and "py_get piece ''transcript'' JNull = Inr (JStr t)"
    and "says_goodbye t"
    and "timestamped_line ev role (JStr t) = Inr line"
    and "\<not> send_to_twilio_done s"
    and "logged = s2\<lparr>transcript_log := transcript_log s2 @ [line], send_to_twilio_done := True\<rparr>"
  shows "relay_step ev (FromOpenAI (AiFrame (Json response))) s =
           (if \<not> twilio_open s then (logged, [LogError RuntimeError])
            else if upload_raises ev (transcript_log s2 @ [line]) then
              (logged,
               [ToTwilio (farewell_event (stream_sid s)), ToTwilio (stop_event (stream_sid s)),
                TranscriptHandoff (transcript_log s2 @ [line]), LogError StorageError])
            else
              (logged\<lparr>openai_open := False, twilio_open := False\<rparr>,
               [ToTwilio (farewell_event (stream_sid s)), ToTwilio (stop_event (stream_sid s)),
                TranscriptHandoff (transcript_log s2 @ [line])]
                @ gcs_upload_of ev (transcript_log s2 @ [line]) @ [CloseOpenAI, CloseTwilio]))"
proof -
  let ?s' = "s2\<lparr>transcript_log := transcript_log s2 @ [line]\<rparr>"
  have g: "on_openai_message ev (Json response) s = goodbye_hangup ev ?s'"
    and l: "only_log s s2"
    using goodbye_reached [OF assms(1-13)] by simp_all
  from only_logD [OF l] have o: "twilio_open ?s' = twilio_open s" "stream_sid ?s' = stream_sid s"
    by simp_all
  show ?thesis
    using g o assms(14,15)
    by (simp add: relay_step_def send_to_twilio_step_def goodbye_hangup_eval)
qed

text \<open>The claim as it was written fails.  With a storage client that fails, the
  goodbye of \<open>farewell_response\<close> sends the farewell and the stop, hands the
  transcript off and logs the error: neither link is closed.  With the telephony link
  closed, the farewell raises: the transcript is not handed off and the AI link is not
  closed.\<close>

theorem goodbye_failure_counterexample:
  "relay_step (example_env\<lparr>storage_ok := False\<rparr>) (FromOpenAI (AiFrame (Json farewell_response))) initial =
     (initial\<lparr>transcript_log := [''[12:00:00] ASSISTANT: Sure.'',
                                   ''[12:00:00] ASSISTANT: Goodbye, take care.''],
              openai_open := True, twilio_open := True, send_to_twilio_done := True\<rparr>,
      [ToTwilio (farewell_event JNull), ToTwilio (stop_event JNull),
       TranscriptHandoff [''[12:00:00] ASSISTANT: Sure.'', ''[12:00:00] ASSISTANT: Goodbye, take care.''],
       LogError StorageError])
   \<and> relay_step example_env (FromOpenAI (AiFrame (Json farewell_response)))
        (initial\<lparr>twilio_open := False\<rparr>) =
     (initial\<lparr>transcript_log := [''[12:00:00] ASSISTANT: Sure.'',
                                   ''[12:00:00] ASSISTANT: Goodbye, take care.''],
              openai_open := True, twilio_open := False, send_to_twilio_done := True\<rparr>,
      [LogError RuntimeError])"
  by code_simp

theorem goodbye_steps_stop_at_first_failure_witness:
  "relay_step (example_env\<lparr>storage_ok := False\<rparr>) (FromOpenAI (AiFrame (Json farewell_response))) initial =
     (initial\<lparr>transcript_log := [''[12:00:00] ASSISTANT: Sure.'',
                                   ''[12:00:00] ASSISTANT: Goodbye, take care.''],
              send_to_twilio_done := True\<rparr>,
      [ToTwilio (farewell_event JNull), ToTwilio (stop_event JNull),
       TranscriptHandoff [''[12:00:00] ASSISTANT: Sure.'', ''[12:00:00] ASSISTANT: Goodbye, take care.''],
       LogError StorageError])
   \<and> upload_raises (example_env\<lparr>storage_ok := False\<rparr>)
        [''[12:00:00] ASSISTANT: Sure.'', ''[12:00:00] ASSISTANT: Goodbye, take care.'']"
proof -
  let ?ev = "example_env\<lparr>storage_ok := False\<rparr>"
  let ?s1 = "initial\<lparr>transcript_log := [''[12:00:00] ASSISTANT: Sure.'']\<rparr>"
  let ?text = "JObj [(''type'', JStr ''text''), (''text'', JStr ''ok'')]"
  let ?second = "assistant_item [?text, audio_piece ''Goodbye, take care.'', audio_piece ''One more thing.'']"
  let ?outputs = "JArr [assistant_item [audio_piece ''Sure.''], ?second,
               assistant_item [audio_piece ''Hello again.'']]"
  have h1: "py_getitem farewell_response ''type'' = Inr (JStr ''response.done'')"
    by (simp add: farewell_response_def)
  have h2: "py_get farewell_response ''response'' (JObj []) = Inr (JObj [(''output'', ?outputs)])"
    by (simp add: farewell_response_def)
  have h3: "py_get (JObj [(''output'', ?outputs)]) ''output'' (JArr []) = Inr ?outputs"
    by simp
  have h4: "py_iter ?outputs = Inr ([assistant_item [audio_piece ''Sure.'']]
      @ ?second # [assistant_item [audio_piece ''Hello again.'']])"
    by simp
  have h5: "item_loop ?ev [assistant_item [audio_piece ''Sure.'']] initial = (?s1, [], Inr Next)"
    by code_simp
  have h6: "py_get ?second ''role'' (JStr ''assistant'') = Inr (JStr ''assistant'')"
    by (simp add: assistant_item_def)
  have h7: "py_get ?second ''content'' (JArr [])
      = Inr (JArr [?text, audio_piece ''Goodbye, take care.'', audio_piece ''One more thing.''])"
    by (simp add: assistant_item_def)
  have h8: "py_iter (JArr [?text, audio_piece ''Goodbye, take care.'', audio_piece ''One more thing.''])
      = Inr ([?text] @ audio_piece ''Goodbye, take care.'' # [audio_piece ''One more thing.''])"
    by simp
  have h9: "content_loop ?ev (JStr ''assistant'') [?text] ?s1 = (?s1, [], Inr Next)"
    by code_simp
  have h10: "py_get (audio_piece ''Goodbye, take care.'') ''type'' JNull = Inr (JStr ''audio'')"
    by (simp add: audio_piece_def)
  have h11: "py_get (audio_piece ''Goodbye, take care.'') ''transcript'' JNull = Inr (JStr ''Goodbye, take care.'')"
    by (simp add: audio_piece_def)
  have h12: "says_goodbye ''Goodbye, take care.''"
    by code_simp
  have h13: "timestamped_line ?ev (JStr ''assistant'') (JStr ''Goodbye, take care.'')
      = Inr ''[12:00:00] ASSISTANT: Goodbye, take care.''"
    by code_simp
  have h14: "\<not> send_to_twilio_done initial"
    by (simp add: initial_def)
  have u: "upload_raises ?ev [''[12:00:00] ASSISTANT: Sure.'', ''[12:00:00] ASSISTANT: Goodbye, take care.'']"
    by (simp add: upload_raises_def example_env_def)
  from goodbye_steps_stop_at_first_failure [OF h1 h2 h3 h4 h5 h6 h7 h8 h9 h10 h11 h12 h13 h14 refl]
  show ?thesis
    using u by (simp add: initial_def)
qed

subsection \<open>Malformed events\<close>

text \<open>
  C6 (amended).  A frame that is not JSON, or a JSON value without the tag
  (\<^verbatim>\<open>event\<close> on the telephony link, \<^verbatim>\<open>type\<close> on the AI link), raises inside
  the loop of the coroutine that reads it.  The only handler stands around the loop:
  the error is logged, the coroutine ends, and no later input of that link is
  processed.  A well-formed event whose tag the loop does not know is skipped, and
  the loop goes on.
\<close>

theorem malformed_event_ends_its_loop:
  assumes "json_loads m = Inl err \<or> (\<exists>data. m = Json data \<and> py_getitem data ''event'' = Inl err)"
    and "json_loads m' = Inl err' \<or> (\<exists>response. m' = Json response \<and> py_getitem response ''type'' = Inl err')"
    and "\<not> receive_from_twilio_done s" and "\<not> send_to_twilio_done s'"
    and "py_getitem other ''event'' = Inr tag"
    and "tag \<notin> set (map JStr [''media'', ''start'', ''mark'', ''stop''])"
    and "py_getitem other' ''type'' = Inr tag'"
    and "tag' \<notin> set (map JStr [''response.audio.delta'', ''response.done'', ''input.audio.text'',
           ''input_audio_buffer.speech_stopped'', ''input_audio_buffer.committed'',
           ''input_audio_buffer.speech_started''])"
  shows "relay_step ev (FromTwilio (TwFrame m)) s = (s\<lparr>receive_from_twilio_done := True\<rparr>, [LogError err])
       \<and> run ev (map FromTwilio later) (s\<lparr>receive_from_twilio_done := True\<rparr>)
           = (s\<lparr>receive_from_twilio_done := True\<rparr>, [])
       \<and> relay_step ev (FromOpenAI (AiFrame m')) s' = (s'\<lparr>send_to_twilio_done := True\<rparr>, [LogError err'])
       \<and> run ev (map FromOpenAI later') (s'\<lparr>send_to_twilio_done := True\<rparr>)
           = (s'\<lparr>send_to_twilio_done := True\<rparr>, [])
       \<and> relay_step ev (FromTwilio (TwFrame (Json other))) s = (s, [])
       \<and> relay_step ev (FromOpenAI (AiFrame (Json other'))) s' = (s', [])"
proof -
  from assms(1) have e: "err \<noteq> WebSocketDisconnect"
    by (auto simp: json_loads_def split: frame.splits dest: py_getitem_error)
  from assms(1) have "on_twilio_message ev m s = (s, [], Inl err)"
    by (auto simp: on_twilio_message_def json_loads_def seq_def lift_def split: frame.splits)
  with e assms(3) have 1: "relay_step ev (FromTwilio (TwFrame m)) s
      = (s\<lparr>receive_from_twilio_done := True\<rparr>, [LogError err])"
    by (simp add: relay_step_def receive_from_twilio_step_def receive_from_twilio_except_def emit_def)
  from assms(2) have "on_openai_message ev m' s' = (s', [], Inl err')"
    by (auto simp: on_openai_message_def json_loads_def seq_def lift_def split: frame.splits)
  with assms(4) have 2: "relay_step ev (FromOpenAI (AiFrame m')) s'
      = (s'\<lparr>send_to_twilio_done := True\<rparr>, [LogError err'])"
    by (simp add: relay_step_def send_to_twilio_step_def)
  from assms(3,5,6) have 3: "relay_step ev (FromTwilio (TwFrame (Json other))) s = (s, [])"
    by (simp add: relay_step_def receive_from_twilio_step_def on_twilio_message_def json_loads_def
        proc_defs)
  from assms(4,7,8) have 4: "relay_step ev (FromOpenAI (AiFrame (Json other'))) s' = (s', [])"
    by (simp add: relay_step_def send_to_twilio_step_def on_openai_message_def json_loads_def
        proc_defs)
  show ?thesis
    using 1 2 3 4 by (simp add: run_after_receive_from_twilio_done run_after_send_to_twilio_done)
qed

text \<open>The claim as it was written fails.  A \<^verbatim>\<open>start\<close> event that follows a frame
  that is not JSON is never read, so \<^verbatim>\<open>stream_sid\<close> stays unset; an audio delta
  that follows a message without \<^verbatim>\<open>type\<close> is never relayed.\<close>

theorem malformed_event_counterexample:
  "stream_sid (fst (run example_env
      [FromTwilio (TwFrame NotJson),
       FromTwilio (TwFrame (twilio_start (JStr ''CA123'')))] initial)) = JNull
   \<and> stream_sid (fst (run example_env
      [FromTwilio (TwFrame (twilio_start (JStr ''CA123'')))] initial)) = JStr ''CA123''
   \<and> snd (run example_env
      [FromOpenAI (AiFrame (Json (JObj [(''delta'', JStr ''AQID'')]))),
       FromOpenAI (AiFrame (ai_audio_delta (JStr ''r1'') (JStr ''AQID'')))] initial) = [LogError KeyError]
   \<and> snd (run example_env
      [FromOpenAI (AiFrame (ai_audio_delta (JStr ''r1'') (JStr ''AQID'')))] initial)
       = [ToTwilio (media_event JNull ''AQID'')]"
  by code_simp

theorem malformed_event_ends_its_loop_witness:
  "relay_step example_env (FromTwilio (TwFrame NotJson)) initial
     = (initial\<lparr>receive_from_twilio_done := True\<rparr>, [LogError JSONDecodeError])
   \<and> run example_env (map FromTwilio [TwFrame (twilio_start (JStr ''CA123''))])
        (initial\<lparr>receive_from_twilio_done := True\<rparr>) = (initial\<lparr>receive_from_twilio_done := True\<rparr>, [])
   \<and> relay_step example_env (FromOpenAI (AiFrame (Json (JObj [(''delta'', JStr ''AQID'')])))) initial
     = (initial\<lparr>send_to_twilio_done := True\<rparr>, [LogError KeyError])
   \<and> run example_env (map FromOpenAI [AiFrame ai_speech_started])
        (initial\<lparr>send_to_twilio_done := True\<rparr>) = (initial\<lparr>send_to_twilio_done := True\<rparr>, [])
   \<and> relay_step example_env (FromTwilio (TwFrame (Json (JObj [(''event'', JStr ''connected'')])))) initial
     = (initial, [])
   \<and> relay_step example_env (FromOpenAI (AiFrame (Json (JObj [(''type'', JStr ''session.created'')])))) initial
     = (initial, [])"
  using malformed_event_ends_its_loop
          [of NotJson JSONDecodeError "Json (JObj [(''delta'', JStr ''AQID'')])" KeyError
              initial initial "JObj [(''event'', JStr ''connected'')]" "JStr ''connected''"
              "JObj [(''type'', JStr ''session.created'')]" "JStr ''session.created''"
              example_env "[TwFrame (twilio_start (JStr ''CA123''))]" "[AiFrame ai_speech_started]"]
  by (simp add: json_loads_def initial_def)

subsection \<open>The in-flight response and its start\<close>

text \<open>
  C7 (amended).  In every state the call can reach, \<^verbatim>\<open>response_start_timestamp_twilio\<close>
  is set whenever \<^verbatim>\<open>last_assistant_item\<close> is set.  (The two are cleared together,
  by the reset of C1; they are not set together, since an audio delta sets the start
  in any case and the item only when it carries a non-empty \<^verbatim>\<open>item_id\<close>.)
\<close>

theorem in_flight_response_has_start:
  "in_flight_has_start (fst (run ev es initial))"
proof -
  have "in_flight_has_start s \<Longrightarrow> in_flight_has_start (fst (run ev es s))" for s
  proof (induction es arbitrary: s)
    case Nil
    then show ?case by simp
  next
    case (Cons e es)
    from Cons.IH [OF relay_step_in_flight [OF Cons.prems]] show ?case
      by (simp only: run_Cons_fst)
  qed
  moreover have "in_flight_has_start initial"
    by (simp add: in_flight_has_start_def initial_def)
  ultimately show ?thesis .
qed

text \<open>The claim as it was written fails: after an audio delta without
  \<^verbatim>\<open>item_id\<close> the start is set and the item is not.\<close>

theorem both_or_neither_counterexample:
  "response_start_timestamp_twilio (fst (run example_env
      [FromOpenAI (AiFrame (Json (JObj [(''type'', JStr ''response.audio.delta''),
                                        (''delta'', JStr ''AQID'')])))] initial)) = Some 0
   \<and> last_assistant_item (fst (run example_env
      [FromOpenAI (AiFrame (Json (JObj [(''type'', JStr ''response.audio.delta''),
                                        (''delta'', JStr ''AQID'')])))] initial)) = JNull"
  by code_simp

theorem in_flight_response_has_start_witness:
  "last_assistant_item speaking \<noteq> JNull \<and> response_start_timestamp_twilio speaking \<noteq> None"
  using in_flight_response_has_start
          [of example_env
             "[FromTwilio (TwFrame (twilio_start (JStr ''CA123''))),
               FromTwilio (TwFrame (twilio_media (JStr ''0'') (JStr ''AAAA''))),
               FromOpenAI (AiFrame (ai_audio_delta (JStr ''r1'') (JStr ''AQID''))),
               FromTwilio (TwFrame (twilio_media (JStr ''800'') (JStr ''AAAA'')))]"]
  by (simp add: speaking_reached in_flight_has_start_def) (simp add: speaking_def)

subsection \<open>An unset stream id\<close>

text \<open>
  C8 (amended).  Whenever \<^verbatim>\<open>stream_sid\<close> is unset, the only command for the
  telephony side that is skipped is the \<^verbatim>\<open>mark\<close>: \<^verbatim>\<open>send_mark\<close> sends nothing
  and appends nothing to \<^verbatim>\<open>mark_queue\<close>.  The \<^verbatim>\<open>media\<close> event of an audio delta
  and the \<^verbatim>\<open>clear\<close> event of the interruption are sent all the same, carrying the
  unset stream id, and the interruption still sends its truncate to the AI link.
\<close>

theorem unset_stream_skips_only_the_mark:
  assumes "\<not> py_truthy (stream_sid s)"
    and "py_getitem response ''type'' = Inr (JStr ''response.audio.delta'')"
    and "py_getitem response ''delta'' = Inr delta"
    and "b64_recode ev delta = Inr audio_payload"
    and "twilio_open s" and "\<not> send_to_twilio_done s"
    and "\<not> py_truthy (stream_sid s')"
    and "py_getitem response' ''type'' = Inr (JStr ''input_audio_buffer.speech_started'')"
    and "py_truthy (last_assistant_item s')"
    and "mark_queue s' \<noteq> []"
    and "response_start_timestamp_twilio s' = Some started"
    and "openai_open s'" and "twilio_open s'" and "\<not> send_to_twilio_done s'"
  shows "snd (relay_step ev (FromOpenAI (AiFrame (Json response))) s)
           = [ToTwilio (media_event (stream_sid s) audio_payload)]
       \<and> mark_queue (fst (relay_step ev (FromOpenAI (AiFrame (Json response))) s)) = mark_queue s
       \<and> send_mark (stream_sid s) s = (s, [], Inr ())
       \<and> snd (relay_step ev (FromOpenAI (AiFrame (Json response'))) s')
           = [ToOpenAI (truncate_command (last_assistant_item s') (latest_media_timestamp s' - started)),
              ToTwilio (clear_event (stream_sid s'))]"
proof -
  from assms(1-6) have
    "snd (relay_step ev (FromOpenAI (AiFrame (Json response))) s)
           = [ToTwilio (media_event (stream_sid s) audio_payload)]
       \<and> mark_queue (fst (relay_step ev (FromOpenAI (AiFrame (Json response))) s)) = mark_queue s"
    by (cases response)
       (simp_all add: relay_step_def send_to_twilio_step_def on_openai_message_def json_loads_def
        audio_delta_def send_mark_def proc_defs media_event_def split: option.splits)
  moreover from assms(1) have "send_mark (stream_sid s) s = (s, [], Inr ())"
    by (simp add: send_mark_def ret_def)
  moreover from assms(7-14) have
    "snd (relay_step ev (FromOpenAI (AiFrame (Json response'))) s')
           = [ToOpenAI (truncate_command (last_assistant_item s') (latest_media_timestamp s' - started)),
              ToTwilio (clear_event (stream_sid s'))]"
    by (simp add: relay_step_def send_to_twilio_step_def on_openai_message_def json_loads_def
      handle_speech_started_event_def proc_defs truncate_command_def clear_event_def)
  ultimately show ?thesis by simp
qed

text \<open>The claim as it was written fails: an audio delta that arrives before the
  \<^verbatim>\<open>start\<close> event is relayed to the telephony link as a \<^verbatim>\<open>media\<close> event whose
  \<^verbatim>\<open>streamSid\<close> is \<^verbatim>\<open>null\<close>.\<close>

theorem unset_stream_media_counterexample:
  "stream_sid initial = JNull
   \<and> snd (run example_env
        [FromOpenAI (AiFrame (ai_audio_delta (JStr ''r1'') (JStr ''AQID''))),
         FromTwilio (TwFrame (twilio_start (JStr ''CA123'')))] initial)
       = [ToTwilio (media_event JNull ''AQID'')]"
  by code_simp

theorem unset_stream_skips_only_the_mark_witness:
  "\<not> py_truthy (stream_sid initial)
   \<and> snd (relay_step example_env (FromOpenAI (AiFrame (ai_audio_delta (JStr ''r1'') (JStr ''AQID'')))) initial)
       = [ToTwilio (media_event JNull ''AQID'')]
   \<and> send_mark JNull initial = (initial, [], Inr ())
   \<and> mark_queue (speaking\<lparr>stream_sid := JNull\<rparr>) \<noteq> []
   \<and> snd (relay_step example_env (FromOpenAI (AiFrame ai_speech_started)) (speaking\<lparr>stream_sid := JNull\<rparr>))
       = [ToOpenAI (truncate_command (JStr ''r1'') 800), ToTwilio (clear_event JNull)]"
  using unset_stream_skips_only_the_mark
          [of initial "JObj [(''type'', JStr ''response.audio.delta''), (''item_id'', JStr ''r1''),
                             (''delta'', JStr ''AQID'')]" "JStr ''AQID''" example_env "''AQID''"
              "speaking\<lparr>stream_sid := JNull\<rparr>"
              "JObj [(''type'', JStr ''input_audio_buffer.speech_started'')]" 0]
  by (simp add: ai_audio_delta_def ai_speech_started_def speaking_def initial_def example_env_def)

subsection \<open>The transcript of a call that is cut off\<close>

text \<open>
  C9.  The claim asks for exactly one handoff of the transcript in every call, also
  when the telephony link disconnects without a \<^verbatim>\<open>stop\<close> event.  The code does
  not do that: on a disconnect the iteration over the telephony link ends and
  \<^verbatim>\<open>receive_from_twilio\<close> returns without a call of
  \<^verbatim>\<open>upload_transcript_to_gcs\<close>.  For a call that starts and is then cut off, the
  relay does nothing at the disconnect and the AI link stays open, and whatever the
  two links deliver afterwards, the transcript is handed off zero times; the same
  call ended by a \<^verbatim>\<open>stop\<close> event hands it off once.
\<close>

theorem disconnect_without_stop_hands_off_nothing:
  "snd (run ev [FromTwilio (TwFrame (twilio_start sid)), FromTwilio TwDisconnect] initial) = []
   \<and> openai_open (fst (run ev [FromTwilio (TwFrame (twilio_start sid)), FromTwilio TwDisconnect] initial))
   \<and> handoffs (snd (run ev ([FromTwilio (TwFrame (twilio_start sid)), FromTwilio TwDisconnect] @ later)
        initial)) = 0
   \<and> handoffs (snd (run ev [FromTwilio (TwFrame (twilio_start sid)), FromTwilio (TwFrame twilio_stop)] initial)) = 1"
proof -
  let ?cut = "initial\<lparr>stream_sid := sid, twilio_open := False, receive_from_twilio_done := True\<rparr>"
  have a: "run ev [FromTwilio (TwFrame (twilio_start sid)), FromTwilio TwDisconnect] initial
     = (?cut, [])"
    by (simp add: relay_step_def receive_from_twilio_step_def on_twilio_message_def json_loads_def
      twilio_start_def initial_def proc_defs)
  have "cut_off ?cut" by (simp add: cut_off_def)
  from run_cut_off [OF this, of ev later] have z: "handoffs (snd (run ev later ?cut)) = 0" .
  obtain s2 e2 where r: "run ev later ?cut = (s2, e2)" by (cases "run ev later ?cut") auto
  have "run ev ([FromTwilio (TwFrame (twilio_start sid)), FromTwilio TwDisconnect] @ later) initial
      = (s2, e2)"
    unfolding run_append a by (simp add: r)
  with z r
  have b: "handoffs (snd (run ev ([FromTwilio (TwFrame (twilio_start sid)), FromTwilio TwDisconnect] @ later)
        initial)) = 0"
    by simp
  have c: "handoffs (snd (run ev [FromTwilio (TwFrame (twilio_start sid)), FromTwilio (TwFrame twilio_stop)] initial)) = 1"
    by (simp add: relay_step_def receive_from_twilio_step_def on_twilio_message_def json_loads_def
      twilio_start_def twilio_stop_def initial_def handoffs_def
      upload_transcript_to_gcs_def proc_defs)
  have o: "openai_open ?cut" by (simp add: initial_def)
  from a b c o show ?thesis by simp
qed

subsection \<open>Outstanding marks and the stream id\<close>

text \<open>
  C10 (amended).  Provided that no telephony \<^verbatim>\<open>start\<close> event carries a
  \<^verbatim>\<open>streamSid\<close> that is \<^verbatim>\<open>null\<close>, empty or otherwise false, in every state the
  call can reach \<^verbatim>\<open>mark_queue\<close> is non-empty only if \<^verbatim>\<open>stream_sid\<close> is set.
  (Every append to the queue is guarded by \<^verbatim>\<open>stream_sid\<close>; but every
  \<^verbatim>\<open>start\<close> event assigns \<^verbatim>\<open>stream_sid\<close> anew, whatever it carries.)
\<close>

theorem queued_marks_imply_stream:
  assumes "list_all start_carries_stream es"
  shows "queued_marks_have_stream (fst (run ev es initial))"
proof -
  have "list_all start_carries_stream es \<Longrightarrow> queued_marks_have_stream s \<Longrightarrow>
        queued_marks_have_stream (fst (run ev es s))" for s
  proof (induction es arbitrary: s)
    case Nil
    then show ?case by simp
  next
    case (Cons e es)
    from Cons.prems have "start_carries_stream e" "list_all start_carries_stream es" by simp_all
    from Cons.IH [OF this(2) relay_step_queued [OF this(1) Cons.prems(2)]] show ?case
      by (simp only: run_Cons_fst)
  qed
  moreover have "queued_marks_have_stream initial"
    by (simp add: queued_marks_have_stream_def initial_def)
  ultimately show ?thesis using assms by blast
qed

text \<open>The claim as it was written fails: a second \<^verbatim>\<open>start\<close> event whose
  \<^verbatim>\<open>streamSid\<close> is \<^verbatim>\<open>null\<close> unsets \<^verbatim>\<open>stream_sid\<close> while a mark is
  outstanding.\<close>

theorem stream_unset_with_marks_counterexample:
  "mark_queue (fst (run example_env
      [FromTwilio (TwFrame (twilio_start (JStr ''CA123''))),
       FromOpenAI (AiFrame (ai_audio_delta (JStr ''r1'') (JStr ''AQID''))),
       FromTwilio (TwFrame (twilio_start JNull))] initial)) = [''responsePart'']
   \<and> stream_sid (fst (run example_env
      [FromTwilio (TwFrame (twilio_start (JStr ''CA123''))),
       FromOpenAI (AiFrame (ai_audio_delta (JStr ''r1'') (JStr ''AQID''))),
       FromTwilio (TwFrame (twilio_start JNull))] initial)) = JNull"
  by code_simp

theorem queued_marks_imply_stream_witness:
  "list_all start_carries_stream
     [FromTwilio (TwFrame (twilio_start (JStr ''CA123''))),
      FromTwilio (TwFrame (twilio_media (JStr ''0'') (JStr ''AAAA''))),
      FromOpenAI (AiFrame (ai_audio_delta (JStr ''r1'') (JStr ''AQID''))),
      FromTwilio (TwFrame (twilio_media (JStr ''800'') (JStr ''AAAA'')))]
   \<and> mark_queue speaking \<noteq> [] \<and> py_truthy (stream_sid speaking)"
proof -
  have l: "list_all start_carries_stream
     [FromTwilio (TwFrame (twilio_start (JStr ''CA123''))),
      FromTwilio (TwFrame (twilio_media (JStr ''0'') (JStr ''AAAA''))),
      FromOpenAI (AiFrame (ai_audio_delta (JStr ''r1'') (JStr ''AQID''))),
      FromTwilio (TwFrame (twilio_media (JStr ''800'') (JStr ''AAAA'')))]"
    by (simp add: start_carries_stream_def twilio_start_def twilio_media_def)
  from queued_marks_imply_stream [OF l, of example_env] l show ?thesis
    by (simp add: speaking_reached queued_marks_have_stream_def) (simp add: speaking_def)
qed

end
